theory Spec2Isabelle
  imports Complex_Main
begin

section \<open>Values, exceptions and outcomes\<close>

text \<open>
  The prescriptive pricing tool (class \<open>BoschPricingOptimizer\<close>) works on Python
  dictionaries whose values are numbers or strings. Finite Python floats and numpy
  scalars are idealised as \<^typ>\<open>real\<close>: no rounding, no overflow, no signed zero.
\<close>

datatype pyval = Num real | Str string

text \<open>
  The exceptions by class; \<open>OtherError\<close> carries the class name of any exception
  that the code itself does not raise (the estimator may raise anything).
\<close>

datatype exn = ZeroDivisionError | KeyError string | TypeError | OtherError string

text \<open>
  A call returns a value all of whose numbers are finite, raises, or returns a value
  that holds \<open>inf\<close> or \<open>nan\<close> somewhere (\<open>NonFinite\<close>).
\<close>

datatype 'a outcome = Return 'a | Raise exn | NonFinite

type_synonym pydict = "string \<rightharpoonup> pyval"

section \<open>Numbers\<close>

text \<open>
  A numpy scalar is a finite number, an infinity or \<open>nan\<close>. Its arithmetic never
  raises: a division by zero gives an infinity of the sign of the numerator, or
  \<open>nan\<close> for \<open>0 / 0\<close>, with a warning.
\<close>

datatype npfloat = Fin real | PInf | NInf | NaN

fun np_neg :: "npfloat \<Rightarrow> npfloat" where
  "np_neg (Fin a) = Fin (- a)"
| "np_neg PInf = NInf"
| "np_neg NInf = PInf"
| "np_neg NaN = NaN"

fun np_add :: "npfloat \<Rightarrow> npfloat \<Rightarrow> npfloat" where
  "np_add (Fin a) (Fin b) = Fin (a + b)"
| "np_add NaN y = NaN"
| "np_add x NaN = NaN"
| "np_add PInf NInf = NaN"
| "np_add NInf PInf = NaN"
| "np_add PInf y = PInf"
| "np_add x PInf = PInf"
| "np_add NInf y = NInf"
| "np_add x NInf = NInf"

definition np_sub :: "npfloat \<Rightarrow> npfloat \<Rightarrow> npfloat" where
  "np_sub x y = np_add x (np_neg y)"

text \<open>An infinity times a finite number: the sign decides, and zero gives \<open>nan\<close>.\<close>

definition inf_times :: "npfloat \<Rightarrow> real \<Rightarrow> npfloat" where
  "inf_times i a = (if a > 0 then i else if a < 0 then np_neg i else NaN)"

fun np_mul :: "npfloat \<Rightarrow> npfloat \<Rightarrow> npfloat" where
  "np_mul (Fin a) (Fin b) = Fin (a * b)"
| "np_mul NaN y = NaN"
| "np_mul x NaN = NaN"
| "np_mul (Fin a) y = inf_times y a"
| "np_mul x (Fin b) = inf_times x b"
| "np_mul PInf y = y"
| "np_mul NInf y = np_neg y"

fun np_div :: "npfloat \<Rightarrow> npfloat \<Rightarrow> npfloat" where
  "np_div (Fin a) (Fin b) =
     (if b \<noteq> 0 then Fin (a / b) else if a > 0 then PInf else if a < 0 then NInf else NaN)"
| "np_div NaN y = NaN"
| "np_div x NaN = NaN"
| "np_div (Fin a) y = Fin 0"
| "np_div x (Fin b) = (if b \<ge> 0 then x else np_neg x)"
| "np_div x y = NaN"

fun np_gt :: "npfloat \<Rightarrow> npfloat \<Rightarrow> bool" where
  "np_gt (Fin a) (Fin b) = (a > b)"
| "np_gt NaN y = False"
| "np_gt x NaN = False"
| "np_gt x PInf = False"
| "np_gt PInf y = True"
| "np_gt NInf y = False"
| "np_gt x NInf = True"

text \<open>
  A number object is a native Python \<open>int\<close> or \<open>float\<close>, or a numpy scalar. An
  operation on two native numbers is Python's, and its division raises on a zero
  divisor; an operation with a numpy scalar on either side is numpy's.
\<close>

datatype num = Native real | Numpy npfloat

fun as_np :: "num \<Rightarrow> npfloat" where
  "as_np (Native x) = Fin x"
| "as_np (Numpy v) = v"

fun py_add :: "num \<Rightarrow> num \<Rightarrow> num" where
  "py_add (Native x) (Native y) = Native (x + y)"
| "py_add a b = Numpy (np_add (as_np a) (as_np b))"

fun py_sub :: "num \<Rightarrow> num \<Rightarrow> num" where
  "py_sub (Native x) (Native y) = Native (x - y)"
| "py_sub a b = Numpy (np_sub (as_np a) (as_np b))"

fun py_mul :: "num \<Rightarrow> num \<Rightarrow> num" where
  "py_mul (Native x) (Native y) = Native (x * y)"
| "py_mul a b = Numpy (np_mul (as_np a) (as_np b))"

fun py_truediv :: "num \<Rightarrow> num \<Rightarrow> num outcome" where
  "py_truediv (Native x) (Native y) =
     (if y = 0 then Raise ZeroDivisionError else Return (Native (x / y)))"
| "py_truediv a b = Return (Numpy (np_div (as_np a) (as_np b)))"

definition py_gt :: "num \<Rightarrow> num \<Rightarrow> bool" where
  "py_gt a b = np_gt (as_np a) (as_np b)"

text \<open>The value of a number object, when it is finite.\<close>

fun real_of :: "num \<Rightarrow> real option" where
  "real_of (Native x) = Some x"
| "real_of (Numpy (Fin x)) = Some x"
| "real_of (Numpy v) = None"

text \<open>
  \<open>numpy.linspace(start, stop, num)\<close> with the default \<open>endpoint=True\<close>: the
  samples \<open>start + i * step\<close> with \<open>step = (stop - start) / (num - 1)\<close>, the last
  one overwritten with \<open>stop\<close>. For finite arguments every sample is finite.
\<close>

definition linspace :: "real \<Rightarrow> real \<Rightarrow> nat \<Rightarrow> real list" where
  "linspace start stop num =
     (if num = 0 then []
      else if num = 1 then [start]
      else map (\<lambda>i. start + real i * ((stop - start) / real (num - 1))) [0..<num - 1]
           @ [stop])"

section \<open>The optimizer\<close>

text \<open>
  The object state that the methods read: the demand estimator (\<open>self.model.predict\<close>,
  an external collaborator that returns a raw estimate or raises), the feature list and
  the elasticity table.
\<close>

record optimizer =
  model_predict :: "pyval list \<Rightarrow> exn + real"
  features :: "string list"
  elasticities :: "pyval \<rightharpoonup> real"

text \<open>The attributes that \<open>__init__\<close> sets, for a loaded model.\<close>

definition init :: "(pyval list \<Rightarrow> exn + real) \<Rightarrow> optimizer" where
  "init model =
     \<lparr>model_predict = model,
      features =
        [''Price'', ''Promotion'', ''Supplier_Cost'', ''Stock_Level'',
         ''Replenishment_Lead_Time'', ''Month'', ''Quarter'', ''DayOfWeek'', ''WeekOfYear'',
         ''Is_Weekend'', ''Year'', ''Profit_Margin'', ''Margin_Percentage'',
         ''Stock_Out_Risk'', ''Avg_Category_Price'', ''Price_Ratio_To_Avg'',
         ''Product_Category_Encoded'', ''Store_Location_Encoded''],
      elasticities =
        [Str ''Snacks'' \<mapsto> - 1.4, Str ''Beverages'' \<mapsto> - 1.3, Str ''Dairy'' \<mapsto> - 0.9,
         Str ''Household'' \<mapsto> - 0.7, Str ''Personal Care'' \<mapsto> - 0.6]\<rparr>"

definition prepare_features :: "optimizer \<Rightarrow> pydict \<Rightarrow> pyval list" where
  "prepare_features opt product_data =
     map (\<lambda>feature. case product_data feature of Some v \<Rightarrow> v | None \<Rightarrow> Num 0)
       (features opt)"

text \<open>
  \<open>max(0, prediction)\<close> returns its first argument unless the second is greater.
\<close>

definition forecast_demand :: "optimizer \<Rightarrow> pydict \<Rightarrow> real outcome" where
  "forecast_demand opt product_data =
     (case model_predict opt (prepare_features opt product_data) of
        Inl e \<Rightarrow> Raise e
      | Inr prediction \<Rightarrow> Return (if prediction > 0 then prediction else 0))"

text \<open>
  The object that \<open>forecast_demand\<close> hands back: the estimator's numpy scalar when it
  is positive, the native \<open>0\<close> of \<open>max\<close> otherwise.
\<close>

definition demand_object :: "real \<Rightarrow> num" where
  "demand_object d = (if d > 0 then Numpy (Fin d) else Native 0)"

text \<open>\<open>self.elasticities.get(category, -1.0)\<close>\<close>

definition elasticity_get :: "optimizer \<Rightarrow> pyval \<Rightarrow> real" where
  "elasticity_get opt category =
     (case elasticities opt category of Some e \<Rightarrow> e | None \<Rightarrow> - 1)"

text \<open>
  The two dictionaries of \<open>optimize_price\<close>, over the number objects \<^typ>\<open>num\<close> while
  the code computes them and over \<^typ>\<open>real\<close> once they are known to be finite.
\<close>

record 'n sim_point =
  sp_price :: 'n
  sp_demand :: 'n
  sp_revenue :: 'n
  sp_price_change_pct :: 'n

record 'n opt_result =
  res_current_price :: 'n
  res_optimal_price :: 'n
  res_current_revenue :: 'n
  res_optimal_revenue :: 'n
  res_revenue_increase_pct :: 'n
  res_price_change_pct :: 'n
  res_simulation_results :: "'n sim_point list"

definition finite_point :: "num sim_point \<Rightarrow> real sim_point option" where
  "finite_point pt =
     Option.bind (real_of (sp_price pt)) (\<lambda>p.
     Option.bind (real_of (sp_demand pt)) (\<lambda>d.
     Option.bind (real_of (sp_revenue pt)) (\<lambda>r.
     Option.bind (real_of (sp_price_change_pct pt)) (\<lambda>q.
       Some \<lparr>sp_price = p, sp_demand = d, sp_revenue = r, sp_price_change_pct = q\<rparr>))))"

text \<open>
  The returned dictionary as an outcome: \<open>Return\<close> with its numbers as reals when all
  of them are finite, \<open>NonFinite\<close> otherwise.
\<close>

definition finite_result :: "num opt_result \<Rightarrow> real opt_result outcome" where
  "finite_result res =
     (case
        Option.bind (real_of (res_current_price res)) (\<lambda>cp.
        Option.bind (real_of (res_optimal_price res)) (\<lambda>op.
        Option.bind (real_of (res_current_revenue res)) (\<lambda>cr.
        Option.bind (real_of (res_optimal_revenue res)) (\<lambda>or.
        Option.bind (real_of (res_revenue_increase_pct res)) (\<lambda>ri.
        Option.bind (real_of (res_price_change_pct res)) (\<lambda>pc.
        Option.bind (those (map finite_point (res_simulation_results res))) (\<lambda>tr.
          Some
            \<lparr>res_current_price = cp, res_optimal_price = op, res_current_revenue = cr,
             res_optimal_revenue = or, res_revenue_increase_pct = ri,
             res_price_change_pct = pc, res_simulation_results = tr\<rparr>)))))))
      of Some r \<Rightarrow> Return r | None \<Rightarrow> NonFinite)"

text \<open>
  The \<open>for test_price in price_points\<close> loop of \<open>optimize_price\<close>, on the loop state
  \<open>(best_price, best_revenue, results)\<close>. \<open>current_price\<close> is a native number (as
  \<open>generate_recommendations\<close> and the example of the script pass it), the elasticity is
  a native float of the table, and \<open>test_price\<close> is a numpy scalar of the grid.
\<close>

fun scan_prices ::
  "optimizer \<Rightarrow> pyval \<Rightarrow> real \<Rightarrow> num \<Rightarrow> real list \<Rightarrow> num \<times> num \<times> num sim_point list
     \<Rightarrow> (num \<times> num \<times> num sim_point list) outcome" where
  "scan_prices opt category current_price base_demand [] st = Return st"
| "scan_prices opt category current_price base_demand (test_price # rest)
     (best_price, best_revenue, results) =
     (let elasticity = Native (elasticity_get opt category) in
      case py_truediv (py_sub (Numpy (Fin test_price)) (Native current_price))
             (Native current_price) of
        NonFinite \<Rightarrow> NonFinite
      | Raise e \<Rightarrow> Raise e
      | Return price_change_pct \<Rightarrow>
          (let demand_change_pct = py_mul elasticity price_change_pct;
               adjusted_demand = py_mul base_demand (py_add (Native 1) demand_change_pct);
               test_revenue = py_mul (Numpy (Fin test_price)) adjusted_demand;
               results' = results @
                 [\<lparr>sp_price = Numpy (Fin test_price), sp_demand = adjusted_demand,
                   sp_revenue = test_revenue, sp_price_change_pct = price_change_pct\<rparr>]
           in if py_gt test_revenue best_revenue
              then scan_prices opt category current_price base_demand rest
                     (Numpy (Fin test_price), test_revenue, results')
              else scan_prices opt category current_price base_demand rest
                     (best_price, best_revenue, results')))"

text \<open>The two \<open>if ... is None\<close> defaults of \<open>optimize_price\<close>.\<close>

definition lower_bound :: "real \<Rightarrow> real option \<Rightarrow> real" where
  "lower_bound current_price min_price =
     (case min_price of None \<Rightarrow> current_price * 0.7 | Some m \<Rightarrow> m)"

definition upper_bound :: "real \<Rightarrow> real option \<Rightarrow> real" where
  "upper_bound current_price max_price =
     (case max_price of None \<Rightarrow> current_price * 1.3 | Some m \<Rightarrow> m)"

text \<open>
  \<open>optimize_price\<close> returns the caller's dictionary as the call leaves it, and the
  outcome. The entries of the returned dictionary are evaluated in the order of the
  source: \<open>revenue_increase_pct\<close> before \<open>price_change_pct\<close>.
\<close>

definition optimize_price ::
  "optimizer \<Rightarrow> pydict \<Rightarrow> real \<Rightarrow> pyval \<Rightarrow> real option \<Rightarrow> real option
     \<Rightarrow> pydict \<times> real opt_result outcome" where
  "optimize_price opt product_data current_price category min_price max_price =
     (let min_price' = lower_bound current_price min_price;
          max_price' = upper_bound current_price max_price;
          product_data' = product_data(''Price'' \<mapsto> Num current_price)
      in case forecast_demand opt product_data' of
           Raise e \<Rightarrow> (product_data', Raise e)
         | NonFinite \<Rightarrow> (product_data', NonFinite)
         | Return d \<Rightarrow>
             (let base_demand = demand_object d;
                  base_revenue = py_mul (Native current_price) base_demand;
                  price_points = linspace min_price' max_price' 50
              in case scan_prices opt category current_price base_demand price_points
                        (Native current_price, base_revenue, []) of
                   Raise e \<Rightarrow> (product_data', Raise e)
                 | NonFinite \<Rightarrow> (product_data', NonFinite)
                 | Return (best_price, best_revenue, results) \<Rightarrow>
                     (case py_truediv (py_sub best_revenue base_revenue) base_revenue of
                        Raise e \<Rightarrow> (product_data', Raise e)
                      | NonFinite \<Rightarrow> (product_data', NonFinite)
                      | Return revenue_ratio \<Rightarrow>
                          (case py_truediv (py_sub best_price (Native current_price))
                                  (Native current_price) of
                             Raise e \<Rightarrow> (product_data', Raise e)
                           | NonFinite \<Rightarrow> (product_data', NonFinite)
                           | Return price_ratio \<Rightarrow>
                               (product_data',
                                finite_result
                                  \<lparr>res_current_price = Native current_price,
                                   res_optimal_price = best_price,
                                   res_current_revenue = base_revenue,
                                   res_optimal_revenue = best_revenue,
                                   res_revenue_increase_pct =
                                     py_mul revenue_ratio (Native 100),
                                   res_price_change_pct = py_mul price_ratio (Native 100),
                                   res_simulation_results = results\<rparr>)))))"

section \<open>Batch recommendations\<close>

record recommendation =
  Product_Category :: pyval
  Store_Location :: pyval
  Current_Price :: real
  Recommended_Price :: real
  Price_Change_Pct :: real
  Expected_Revenue_Increase_Pct :: real
  Recommendation :: string

text \<open>
  A line printed by the exception handler: the product's category and the exception.
\<close>

type_synonym diagnostic = "pyval \<times> exn"

text \<open>\<open>product[key]\<close>\<close>

definition getitem :: "pydict \<Rightarrow> string \<Rightarrow> pyval outcome" where
  "getitem product key = (case product key of None \<Rightarrow> Raise (KeyError key) | Some v \<Rightarrow> Return v)"

text \<open>
  The body of the \<open>try\<close> block for one product. The arguments of the call are
  evaluated left to right; a price that is a string fails at the first multiplication
  of \<open>optimize_price\<close>. The call assigns \<open>product['Price']\<close> the value it already has.
  A result with a non-finite entry would go into a recommendation with a non-finite
  entry; the call with the default bounds never returns one.
\<close>

definition recommend_product ::
  "optimizer \<Rightarrow> pydict \<Rightarrow> recommendation outcome" where
  "recommend_product opt product =
     (case getitem product ''Price'' of
        Raise e \<Rightarrow> Raise e
      | NonFinite \<Rightarrow> NonFinite
      | Return price_value \<Rightarrow>
     (case getitem product ''Product_Category'' of
        Raise e \<Rightarrow> Raise e
      | NonFinite \<Rightarrow> NonFinite
      | Return category \<Rightarrow>
     (case price_value of
        Str s \<Rightarrow> Raise TypeError
      | Num current_price \<Rightarrow>
     (case snd (optimize_price opt product current_price category None None) of
        Raise e \<Rightarrow> Raise e
      | NonFinite \<Rightarrow> NonFinite
      | Return result \<Rightarrow>
     (case getitem product ''Store_Location'' of
        Raise e \<Rightarrow> Raise e
      | NonFinite \<Rightarrow> NonFinite
      | Return location \<Rightarrow>
          Return
            \<lparr>Product_Category = category,
             Store_Location = location,
             Current_Price = res_current_price result,
             Recommended_Price = res_optimal_price result,
             Price_Change_Pct = res_price_change_pct result,
             Expected_Revenue_Increase_Pct = res_revenue_increase_pct result,
             Recommendation =
               (if res_price_change_pct result > 0 then ''INCREASE'' else ''DECREASE'')\<rparr>)))))"

text \<open>
  The loop of \<open>generate_recommendations\<close> on the state \<open>(printed, recommendations)\<close>.
  The handler formats its message with \<open>product['Product_Category']\<close>; a \<open>KeyError\<close>
  raised there leaves the function.
\<close>

fun recommend_loop ::
  "optimizer \<Rightarrow> pydict list \<Rightarrow> diagnostic list \<times> recommendation list
     \<Rightarrow> (diagnostic list \<times> recommendation list) outcome" where
  "recommend_loop opt [] st = Return st"
| "recommend_loop opt (product # rest) (printed, recommendations) =
     (case recommend_product opt product of
        Return recommendation \<Rightarrow>
          recommend_loop opt rest (printed, recommendations @ [recommendation])
      | NonFinite \<Rightarrow> NonFinite
      | Raise e \<Rightarrow>
          (case getitem product ''Product_Category'' of
             Raise e' \<Rightarrow> Raise e'
           | NonFinite \<Rightarrow> NonFinite
           | Return category \<Rightarrow>
               recommend_loop opt rest (printed @ [(category, e)], recommendations)))"

definition generate_recommendations ::
  "optimizer \<Rightarrow> pydict list \<Rightarrow> (diagnostic list \<times> recommendation list) outcome" where
  "generate_recommendations opt products_data = recommend_loop opt products_data ([], [])"

section \<open>Notions used in the statements\<close>

text \<open>
  The dictionary that one pass of the loop appends for the candidate \<open>test_price\<close>,
  as a function of the elasticity, the current price and the base demand.
\<close>

definition point_at :: "real \<Rightarrow> real \<Rightarrow> real \<Rightarrow> real \<Rightarrow> real sim_point" where
  "point_at elasticity current_price base_demand test_price =
     \<lparr>sp_price = test_price,
      sp_demand = base_demand * (1 + elasticity * ((test_price - current_price) / current_price)),
      sp_revenue =
        test_price *
        (base_demand * (1 + elasticity * ((test_price - current_price) / current_price))),
      sp_price_change_pct = (test_price - current_price) / current_price\<rparr>"

text \<open>
  The best \<open>(price, revenue)\<close> pair after a run over evaluated candidates, from a
  starting pair: replaced on a strictly greater revenue only.
\<close>

fun best_of :: "real sim_point list \<Rightarrow> real \<times> real \<Rightarrow> real \<times> real" where
  "best_of [] best = best"
| "best_of (pt # pts) (best_price, best_revenue) =
     (if sp_revenue pt > best_revenue then best_of pts (sp_price pt, sp_revenue pt)
      else best_of pts (best_price, best_revenue))"

text \<open>
  The simulation trace of a call that reaches the loop with base demand
  \<open>base_demand\<close>: one point for each of the 50 candidates.
\<close>

definition simulate ::
  "optimizer \<Rightarrow> pyval \<Rightarrow> real \<Rightarrow> real \<Rightarrow> real option \<Rightarrow> real option
     \<Rightarrow> real sim_point list" where
  "simulate opt category current_price base_demand min_price max_price =
     map (point_at (elasticity_get opt category) current_price base_demand)
       (linspace (lower_bound current_price min_price) (upper_bound current_price max_price) 50)"

text \<open>
  The dictionary that one pass of the loop appends for the candidate \<open>test_price\<close>
  when the current price is 0: the price change is an infinity of the sign of the
  candidate, or \<open>nan\<close> for the candidate 0.
\<close>

definition zero_price_point :: "optimizer \<Rightarrow> pyval \<Rightarrow> num \<Rightarrow> real \<Rightarrow> num sim_point" where
  "zero_price_point opt category base_demand test_price =
     (let price_change_pct =
            Numpy (if test_price > 0 then PInf else if test_price < 0 then NInf else NaN);
          adjusted_demand =
            py_mul base_demand
              (py_add (Native 1)
                 (py_mul (Native (elasticity_get opt category)) price_change_pct))
      in \<lparr>sp_price = Numpy (Fin test_price), sp_demand = adjusted_demand,
          sp_revenue = py_mul (Numpy (Fin test_price)) adjusted_demand,
          sp_price_change_pct = price_change_pct\<rparr>)"

section \<open>Example inputs\<close>

text \<open>An estimator that predicts the same demand for every feature vector.\<close>

definition constant_model :: "real \<Rightarrow> pyval list \<Rightarrow> exn + real" where
  "constant_model d fv = Inr d"

text \<open>
  An estimator that reads the price, the first feature: demand \<open>2000 - 100 * price\<close>,
  and a \<open>ValueError\<close> for a price above 100 or a feature vector without a numeric
  price.
\<close>

definition price_model :: "pyval list \<Rightarrow> exn + real" where
  "price_model fv =
     (case fv of
        Num p # rest \<Rightarrow>
          if p > 100 then Inl (OtherError ''ValueError'') else Inr (2000 - 100 * p)
      | _ \<Rightarrow> Inl (OtherError ''ValueError''))"

text \<open>A product dictionary in the shape of the script's sample products.\<close>

definition sample_product :: "string \<Rightarrow> real \<Rightarrow> pydict" where
  "sample_product category p =
     [''Product_Category'' \<mapsto> Str category, ''Store_Location'' \<mapsto> Str ''Urban'',
      ''Price'' \<mapsto> Num p, ''Promotion'' \<mapsto> Num 0]"

text \<open>An optimizer whose table has been given an entry: \<open>opt.elasticities[category] = e\<close>.\<close>

definition with_elasticity :: "optimizer \<Rightarrow> pyval \<Rightarrow> real \<Rightarrow> optimizer" where
  "with_elasticity opt category e = opt\<lparr>elasticities := (elasticities opt)(category \<mapsto> e)\<rparr>"

section \<open>The grid\<close>

lemma linspace_length: "length (linspace start stop num) = num"
  by (simp add: linspace_def)

lemma linspace_not_Nil: "0 < num \<Longrightarrow> linspace start stop num \<noteq> []"
  using linspace_length [of start stop num] by auto

lemma linspace_nth:
  assumes "i < num" "1 < num"
  shows "linspace start stop num ! i = start + real i * ((stop - start) / real (num - 1))"
proof (cases "i < num - 1")
  case True
  with assms show ?thesis by (simp add: linspace_def nth_append)
next
  case False
  with assms have i: "i = num - 1" by simp
  with assms show ?thesis by (simp add: linspace_def nth_append)
qed

section \<open>Finite numbers\<close>

lemma real_of_SomeD: "real_of a = Some x \<Longrightarrow> a = Native x \<or> a = Numpy (Fin x)"
  by (cases a rule: real_of.cases) simp_all

lemma as_np_finite: "real_of a = Some x \<Longrightarrow> as_np a = Fin x"
  by (auto dest: real_of_SomeD)

lemma py_add_finite:
  "real_of a = Some x \<Longrightarrow> real_of b = Some y \<Longrightarrow> real_of (py_add a b) = Some (x + y)"
  by (auto dest!: real_of_SomeD)

lemma py_sub_finite:
  "real_of a = Some x \<Longrightarrow> real_of b = Some y \<Longrightarrow> real_of (py_sub a b) = Some (x - y)"
  by (auto dest!: real_of_SomeD simp: np_sub_def)

lemma py_mul_finite:
  "real_of a = Some x \<Longrightarrow> real_of b = Some y \<Longrightarrow> real_of (py_mul a b) = Some (x * y)"
  by (auto dest!: real_of_SomeD)

lemma py_truediv_finite:
  "real_of a = Some x \<Longrightarrow> real_of b = Some y \<Longrightarrow> y \<noteq> 0 \<Longrightarrow>
   \<exists>q. py_truediv a b = Return q \<and> real_of q = Some (x / y)"
  by (auto dest!: real_of_SomeD)

lemma py_gt_finite:
  "real_of a = Some x \<Longrightarrow> real_of b = Some y \<Longrightarrow> py_gt a b = (x > y)"
  by (auto dest!: real_of_SomeD simp: py_gt_def)

lemma real_of_demand_object: "0 \<le> d \<Longrightarrow> real_of (demand_object d) = Some d"
  by (simp add: demand_object_def)

lemma those_map_Some: "those (map Some xs) = Some xs"
  by (induction xs) simp_all

lemma those_None: "None \<in> set ys \<Longrightarrow> those ys = None"
  by (induction ys) (auto split: option.splits)

lemma finite_result_NonFinite:
  assumes "pt \<in> set (res_simulation_results res)" "real_of (sp_price_change_pct pt) = None"
  shows "finite_result res = NonFinite"
proof -
  from assms(2) have "finite_point pt = None" by (simp add: finite_point_def)
  with assms(1) have "None \<in> set (map finite_point (res_simulation_results res))"
    by (metis image_eqI list.set_map)
  then have "those (map finite_point (res_simulation_results res)) = None"
    by (rule those_None)
  then show ?thesis by (simp add: finite_result_def)
qed

section \<open>The scan\<close>

text \<open>
  With a non-zero current price every number of the loop is finite: the points
  appended are those of \<open>point_at\<close>, the best pair follows \<open>best_of\<close>, and it stays
  the very pair of objects it was while no candidate beats it.
\<close>

lemma scan_prices_nonzero:
  assumes "current_price \<noteq> 0" "0 \<le> bd" "real_of obp = Some bp" "real_of obr = Some br"
  shows "\<exists>bp' br' raws.
    scan_prices opt category current_price (demand_object bd) ps (obp, obr, rs) =
      Return (bp', br', rs @ raws) \<and>
    map finite_point raws =
      map Some (map (point_at (elasticity_get opt category) current_price bd) ps) \<and>
    real_of bp' =
      Some (fst (best_of (map (point_at (elasticity_get opt category) current_price bd) ps)
        (bp, br))) \<and>
    real_of br' =
      Some (snd (best_of (map (point_at (elasticity_get opt category) current_price bd) ps)
        (bp, br))) \<and>
    ((\<forall>pt\<in>set (map (point_at (elasticity_get opt category) current_price bd) ps).
        sp_revenue pt \<le> br) \<longrightarrow> bp' = obp \<and> br' = obr)"
  using assms(3,4)
proof (induction ps arbitrary: obp obr bp br rs)
  case Nil
  then show ?case by simp
next
  case (Cons p ps)
  let ?e = "elasticity_get opt category"
  let ?q = "(p - current_price) / current_price"
  let ?d = "bd * (1 + ?e * ?q)"
  let ?raw = "\<lparr>sp_price = Numpy (Fin p), sp_demand = Numpy (Fin ?d),
    sp_revenue = Numpy (Fin (p * ?d)), sp_price_change_pct = Numpy (Fin ?q)\<rparr>"
  have q: "py_truediv (py_sub (Numpy (Fin p)) (Native current_price)) (Native current_price) =
      Return (Numpy (Fin ?q))"
    using assms(1) by (simp add: np_sub_def)
  have d: "py_mul (demand_object bd) (py_add (Native 1) (py_mul (Native ?e) (Numpy (Fin ?q)))) =
      Numpy (Fin ?d)"
    using assms(2) by (simp add: demand_object_def)
  have gt: "py_gt (Numpy (Fin (p * ?d))) obr = (p * ?d > br)"
    using Cons.prems(2) by (simp add: py_gt_finite)
  have fp: "finite_point ?raw = Some (point_at ?e current_price bd p)"
    by (simp add: finite_point_def point_at_def)
  have rev: "sp_revenue (point_at ?e current_price bd p) = p * ?d"
    "sp_price (point_at ?e current_price bd p) = p"
    by (simp_all add: point_at_def)
  show ?case
  proof (cases "p * ?d > br")
    case True
    from Cons.IH [of "Numpy (Fin p)" p "Numpy (Fin (p * ?d))" "p * ?d" "rs @ [?raw]"]
    obtain bp' br' raws where
      "scan_prices opt category current_price (demand_object bd) ps
          (Numpy (Fin p), Numpy (Fin (p * ?d)), rs @ [?raw]) =
        Return (bp', br', (rs @ [?raw]) @ raws)"
      "map finite_point raws = map Some (map (point_at ?e current_price bd) ps)"
      "real_of bp' = Some (fst (best_of (map (point_at ?e current_price bd) ps) (p, p * ?d)))"
      "real_of br' = Some (snd (best_of (map (point_at ?e current_price bd) ps) (p, p * ?d)))"
      by auto
    with True q d gt fp rev show ?thesis
      by (intro exI [of _ bp'] exI [of _ br'] exI [of _ "?raw # raws"]) (simp add: Let_def)
  next
    case False
    from Cons.IH [OF Cons.prems, of "rs @ [?raw]"]
    obtain bp' br' raws where
      "scan_prices opt category current_price (demand_object bd) ps
          (obp, obr, rs @ [?raw]) =
        Return (bp', br', (rs @ [?raw]) @ raws)"
      "map finite_point raws = map Some (map (point_at ?e current_price bd) ps)"
      "real_of bp' = Some (fst (best_of (map (point_at ?e current_price bd) ps) (bp, br)))"
      "real_of br' = Some (snd (best_of (map (point_at ?e current_price bd) ps) (bp, br)))"
      "(\<forall>pt\<in>set (map (point_at ?e current_price bd) ps). sp_revenue pt \<le> br) \<longrightarrow>
         bp' = obp \<and> br' = obr"
      by auto
    with False q d gt fp rev show ?thesis
      by (intro exI [of _ bp'] exI [of _ br'] exI [of _ "?raw # raws"]) (simp add: Let_def)
  qed
qed

text \<open>
  With the current price 0 the division of the loop gives an infinity or \<open>nan\<close>
  for every candidate, and the loop runs on.
\<close>

lemma scan_prices_zero_step:
  "scan_prices opt category 0 base_demand (p # ps) (obp, obr, rs) =
     (if py_gt (sp_revenue (zero_price_point opt category base_demand p)) obr
      then scan_prices opt category 0 base_demand ps
             (Numpy (Fin p), sp_revenue (zero_price_point opt category base_demand p),
              rs @ [zero_price_point opt category base_demand p])
      else scan_prices opt category 0 base_demand ps
             (obp, obr, rs @ [zero_price_point opt category base_demand p]))"
  by (simp add: zero_price_point_def np_sub_def Let_def)

lemma zero_price_point_not_finite:
  "real_of (sp_price_change_pct (zero_price_point opt category base_demand p)) = None"
  by (simp add: zero_price_point_def Let_def)

lemma scan_prices_zero:
  "\<exists>bp' br' raws.
     scan_prices opt category 0 base_demand ps (obp, obr, rs) = Return (bp', br', rs @ raws) \<and>
     length raws = length ps \<and>
     (\<forall>raw\<in>set raws. real_of (sp_price_change_pct raw) = None)"
proof (induction ps arbitrary: obp obr rs)
  case Nil
  show ?case by simp
next
  case (Cons p ps)
  let ?pt = "zero_price_point opt category base_demand p"
  have aux: "\<exists>bp' br' raws.
     scan_prices opt category 0 base_demand ps (obp', obr', rs @ [?pt]) =
       Return (bp', br', rs @ raws) \<and>
     length raws = length (p # ps) \<and>
     (\<forall>raw\<in>set raws. real_of (sp_price_change_pct raw) = None)" for obp' obr'
  proof -
    from Cons.IH [of obp' obr' "rs @ [?pt]"] obtain bp' br' raws where
      "scan_prices opt category 0 base_demand ps (obp', obr', rs @ [?pt]) =
        Return (bp', br', (rs @ [?pt]) @ raws)"
      "length raws = length ps" "\<forall>raw\<in>set raws. real_of (sp_price_change_pct raw) = None"
      by blast
    then show ?thesis
      by (intro exI [of _ bp'] exI [of _ br'] exI [of _ "?pt # raws"])
        (simp add: zero_price_point_not_finite)
  qed
  show ?case
    unfolding scan_prices_zero_step
    by (cases "py_gt (sp_revenue ?pt) obr") (simp_all only: if_True if_False aux)
qed

text \<open>
  At the price 0 a candidate's revenue is \<open>nan\<close> or \<open>- inf\<close>, and the best pair is
  kept, when the elasticity is not positive, the base demand is 0 or the candidate is 0.
\<close>

lemma zero_revenue_not_greater:
  assumes "0 \<le> bd" "elasticity_get opt category \<le> 0 \<or> bd = 0 \<or> p = 0"
    "real_of obr = Some br"
  shows "\<not> py_gt (sp_revenue (zero_price_point opt category (demand_object bd) p)) obr"
  using assms
  by (auto dest!: real_of_SomeD
      simp: zero_price_point_def py_gt_def demand_object_def inf_times_def Let_def)

lemma scan_prices_zero_keep:
  assumes "0 \<le> bd"
    and "elasticity_get opt category \<le> 0 \<or> bd = 0 \<or> (\<forall>p\<in>set ps. p = 0)"
    and "real_of obr = Some br"
  shows "\<exists>raws.
     scan_prices opt category 0 (demand_object bd) ps (obp, obr, rs) =
       Return (obp, obr, rs @ raws)"
  using assms(2)
proof (induction ps arbitrary: rs)
  case Nil
  show ?case by simp
next
  case (Cons p ps)
  from Cons.prems have 1: "elasticity_get opt category \<le> 0 \<or> bd = 0 \<or> p = 0"
    and 2: "elasticity_get opt category \<le> 0 \<or> bd = 0 \<or> (\<forall>p\<in>set ps. p = 0)"
    by auto
  note ng = zero_revenue_not_greater [OF assms(1) 1 assms(3)]
  from Cons.IH [OF 2, of "rs @ [zero_price_point opt category (demand_object bd) p]"]
  show ?case
    unfolding scan_prices_zero_step if_not_P [OF ng] by (metis append_assoc)
qed



text \<open>
  Either no candidate beats the starting pair, which is kept, or the result is the first
  candidate of maximal revenue.
\<close>

lemma best_of_cases:
  "(best_of pts (bp, br) = (bp, br) \<and> (\<forall>j<length pts. sp_revenue (pts ! j) \<le> br)) \<or>
   (\<exists>i<length pts.
      best_of pts (bp, br) = (sp_price (pts ! i), sp_revenue (pts ! i)) \<and>
      br < sp_revenue (pts ! i) \<and>
      (\<forall>j<i. sp_revenue (pts ! j) < sp_revenue (pts ! i)) \<and>
      (\<forall>j<length pts. sp_revenue (pts ! j) \<le> sp_revenue (pts ! i)))"
proof (induction pts arbitrary: bp br)
  case Nil
  show ?case by simp
next
  case (Cons pt pts)
  show ?case
  proof (cases "sp_revenue pt > br")
    case True
    from Cons.IH [of "sp_price pt" "sp_revenue pt"] show ?thesis
    proof
      assume keep: "best_of pts (sp_price pt, sp_revenue pt) = (sp_price pt, sp_revenue pt) \<and>
        (\<forall>j<length pts. sp_revenue (pts ! j) \<le> sp_revenue pt)"
      have "\<forall>j<length (pt # pts). sp_revenue ((pt # pts) ! j) \<le> sp_revenue ((pt # pts) ! 0)"
        using keep by (simp add: nth_Cons split: nat.splits)
      with True keep have "0 < length (pt # pts) \<and>
        best_of (pt # pts) (bp, br) = (sp_price ((pt # pts) ! 0), sp_revenue ((pt # pts) ! 0)) \<and>
        br < sp_revenue ((pt # pts) ! 0) \<and>
        (\<forall>j<0. sp_revenue ((pt # pts) ! j) < sp_revenue ((pt # pts) ! 0)) \<and>
        (\<forall>j<length (pt # pts). sp_revenue ((pt # pts) ! j) \<le> sp_revenue ((pt # pts) ! 0))"
        by simp
      then show ?thesis by blast
    next
      assume "\<exists>i<length pts.
        best_of pts (sp_price pt, sp_revenue pt) = (sp_price (pts ! i), sp_revenue (pts ! i)) \<and>
        sp_revenue pt < sp_revenue (pts ! i) \<and>
        (\<forall>j<i. sp_revenue (pts ! j) < sp_revenue (pts ! i)) \<and>
        (\<forall>j<length pts. sp_revenue (pts ! j) \<le> sp_revenue (pts ! i))"
      then obtain i where i: "i < length pts"
        "best_of pts (sp_price pt, sp_revenue pt) = (sp_price (pts ! i), sp_revenue (pts ! i))"
        "sp_revenue pt < sp_revenue (pts ! i)"
        "\<forall>j<i. sp_revenue (pts ! j) < sp_revenue (pts ! i)"
        "\<forall>j<length pts. sp_revenue (pts ! j) \<le> sp_revenue (pts ! i)"
        by blast
      have "Suc i < length (pt # pts) \<and>
        best_of (pt # pts) (bp, br) =
          (sp_price ((pt # pts) ! Suc i), sp_revenue ((pt # pts) ! Suc i)) \<and>
        br < sp_revenue ((pt # pts) ! Suc i) \<and>
        (\<forall>j<Suc i. sp_revenue ((pt # pts) ! j) < sp_revenue ((pt # pts) ! Suc i)) \<and>
        (\<forall>j<length (pt # pts). sp_revenue ((pt # pts) ! j) \<le> sp_revenue ((pt # pts) ! Suc i))"
        using True i by (auto simp: nth_Cons split: nat.splits)
      then show ?thesis by blast
    qed
  next
    case False
    from Cons.IH [of bp br] show ?thesis
    proof
      assume "best_of pts (bp, br) = (bp, br) \<and> (\<forall>j<length pts. sp_revenue (pts ! j) \<le> br)"
      with False show ?thesis by (auto simp: nth_Cons split: nat.splits)
    next
      assume "\<exists>i<length pts.
        best_of pts (bp, br) = (sp_price (pts ! i), sp_revenue (pts ! i)) \<and>
        br < sp_revenue (pts ! i) \<and>
        (\<forall>j<i. sp_revenue (pts ! j) < sp_revenue (pts ! i)) \<and>
        (\<forall>j<length pts. sp_revenue (pts ! j) \<le> sp_revenue (pts ! i))"
      then obtain i where i: "i < length pts"
        "best_of pts (bp, br) = (sp_price (pts ! i), sp_revenue (pts ! i))"
        "br < sp_revenue (pts ! i)"
        "\<forall>j<i. sp_revenue (pts ! j) < sp_revenue (pts ! i)"
        "\<forall>j<length pts. sp_revenue (pts ! j) \<le> sp_revenue (pts ! i)"
        by blast
      have "Suc i < length (pt # pts) \<and>
        best_of (pt # pts) (bp, br) =
          (sp_price ((pt # pts) ! Suc i), sp_revenue ((pt # pts) ! Suc i)) \<and>
        br < sp_revenue ((pt # pts) ! Suc i) \<and>
        (\<forall>j<Suc i. sp_revenue ((pt # pts) ! j) < sp_revenue ((pt # pts) ! Suc i)) \<and>
        (\<forall>j<length (pt # pts). sp_revenue ((pt # pts) ! j) \<le> sp_revenue ((pt # pts) ! Suc i))"
        using False i by (auto simp: nth_Cons split: nat.splits)
      then show ?thesis by blast
    qed
  qed
qed

lemma best_of_ge: "br \<le> snd (best_of pts (bp, br))"
  using best_of_cases [of pts bp br] by auto

lemma best_of_keep:
  "\<forall>pt\<in>set pts. sp_revenue pt \<le> br \<Longrightarrow> best_of pts (bp, br) = (bp, br)"
  by (induction pts) auto

section \<open>The outcomes of \<open>optimize_price\<close>\<close>

lemma forecast_demand_nonneg: "forecast_demand opt pd = Return bd \<Longrightarrow> 0 \<le> bd"
  by (auto simp: forecast_demand_def split: sum.splits if_splits)

lemma forecast_demand_not_NonFinite: "forecast_demand opt pd \<noteq> NonFinite"
  by (simp add: forecast_demand_def split: sum.splits)

lemma py_truediv_Raise: "py_truediv a b = Raise e \<Longrightarrow> e = ZeroDivisionError"
  by (cases a; cases b) (auto split: if_splits)

lemma py_truediv_not_NonFinite: "py_truediv a b \<noteq> NonFinite"
  by (cases a; cases b) auto



lemma linspace_zero: "p \<in> set (linspace 0 0 num) \<Longrightarrow> p = 0"
  by (auto simp: linspace_def split: if_splits)


lemma scan_prices_Return:
  "\<exists>bp' br' raws.
     scan_prices opt category current_price (demand_object bd) ps (obp, obr, rs) =
       Return (bp', br', raws)" if "0 \<le> bd" "real_of obp \<noteq> None" "real_of obr \<noteq> None"
proof (cases "current_price = 0")
  case True
  with scan_prices_zero [of opt category "demand_object bd" ps obp obr rs] show ?thesis
    by auto
next
  case False
  from that obtain bp br where "real_of obp = Some bp" "real_of obr = Some br" by auto
  from scan_prices_nonzero [OF False that(1) this, of opt category ps rs] show ?thesis
    by blast
qed

lemma optimize_price_fst:
  "fst (optimize_price opt product_data current_price category min_price max_price) =
     product_data(''Price'' \<mapsto> Num current_price)"
  by (simp add: optimize_price_def Let_def split: outcome.splits prod.splits)

text \<open>A call with a non-zero price and a positive base demand returns, and what.\<close>

lemma optimize_price_returns:
  assumes c: "current_price \<noteq> 0"
    and bd: "forecast_demand opt (product_data(''Price'' \<mapsto> Num current_price)) =
      Return base_demand"
    and pos: "base_demand \<noteq> 0"
  shows "optimize_price opt product_data current_price category min_price max_price =
    (product_data(''Price'' \<mapsto> Num current_price),
     Return
       \<lparr>res_current_price = current_price,
        res_optimal_price =
          fst (best_of (simulate opt category current_price base_demand min_price max_price)
            (current_price, current_price * base_demand)),
        res_current_revenue = current_price * base_demand,
        res_optimal_revenue =
          snd (best_of (simulate opt category current_price base_demand min_price max_price)
            (current_price, current_price * base_demand)),
        res_revenue_increase_pct =
          (snd (best_of (simulate opt category current_price base_demand min_price max_price)
            (current_price, current_price * base_demand)) - current_price * base_demand)
          / (current_price * base_demand) * 100,
        res_price_change_pct =
          (fst (best_of (simulate opt category current_price base_demand min_price max_price)
            (current_price, current_price * base_demand)) - current_price)
          / current_price * 100,
        res_simulation_results =
          simulate opt category current_price base_demand min_price max_price\<rparr>)"
proof -
  let ?T = "simulate opt category current_price base_demand min_price max_price"
  let ?b = "best_of ?T (current_price, current_price * base_demand)"
  let ?base = "py_mul (Native current_price) (demand_object base_demand)"
  from forecast_demand_nonneg [OF bd] have nn: "0 \<le> base_demand" .
  have base: "real_of ?base = Some (current_price * base_demand)"
    by (simp add: py_mul_finite real_of_demand_object nn)
  from scan_prices_nonzero [OF c nn _ base, of "Native current_price" current_price
      opt category
      "linspace (lower_bound current_price min_price) (upper_bound current_price max_price) 50"
      "[]"]
  obtain bp' br' raws where
    scan: "scan_prices opt category current_price (demand_object base_demand)
        (linspace (lower_bound current_price min_price) (upper_bound current_price max_price) 50)
        (Native current_price, ?base, []) = Return (bp', br', raws)"
    and raws: "map finite_point raws = map Some ?T"
    and bp': "real_of bp' = Some (fst ?b)"
    and br': "real_of br' = Some (snd ?b)"
    by (auto simp: simulate_def)
  from c pos have nz: "current_price * base_demand \<noteq> 0" by simp
  from py_truediv_finite [OF py_sub_finite [OF br' base] base nz]
  obtain q1 where q1: "py_truediv (py_sub br' ?base) ?base = Return q1"
    "real_of q1 = Some ((snd ?b - current_price * base_demand) / (current_price * base_demand))"
    by blast
  have "real_of (Native current_price) = Some current_price" by simp
  from py_truediv_finite [OF py_sub_finite [OF bp' this] this c]
  obtain q2 where q2: "py_truediv (py_sub bp' (Native current_price)) (Native current_price) =
      Return q2"
    "real_of q2 = Some ((fst ?b - current_price) / current_price)"
    by blast
  have r1: "real_of (py_mul q1 (Native 100)) =
      Some ((snd ?b - current_price * base_demand) / (current_price * base_demand) * 100)"
    by (simp add: py_mul_finite q1)
  have r2: "real_of (py_mul q2 (Native 100)) = Some ((fst ?b - current_price) / current_price * 100)"
    by (simp add: py_mul_finite q2)
  have tr: "those (map finite_point raws) = Some ?T"
    by (simp add: raws those_map_Some)
  have "finite_result
      \<lparr>res_current_price = Native current_price, res_optimal_price = bp',
       res_current_revenue = ?base, res_optimal_revenue = br',
       res_revenue_increase_pct = py_mul q1 (Native 100),
       res_price_change_pct = py_mul q2 (Native 100),
       res_simulation_results = raws\<rparr> =
    Return
      \<lparr>res_current_price = current_price, res_optimal_price = fst ?b,
       res_current_revenue = current_price * base_demand, res_optimal_revenue = snd ?b,
       res_revenue_increase_pct =
         (snd ?b - current_price * base_demand) / (current_price * base_demand) * 100,
       res_price_change_pct = (fst ?b - current_price) / current_price * 100,
       res_simulation_results = ?T\<rparr>"
    by (simp add: finite_result_def bp' br' base r1 r2 tr)
  then show ?thesis
    unfolding optimize_price_def Let_def bd outcome.case scan prod.case q1(1) q2(1)
    by simp
qed

text \<open>A zero base demand: the first division of the return statement raises.\<close>

lemma optimize_price_zero_demand:
  assumes bd: "forecast_demand opt (product_data(''Price'' \<mapsto> Num current_price)) = Return 0"
  shows "optimize_price opt product_data current_price category min_price max_price =
    (product_data(''Price'' \<mapsto> Num current_price), Raise ZeroDivisionError)"
proof -
  let ?ps = "linspace (lower_bound current_price min_price)
    (upper_bound current_price max_price) 50"
  have base: "py_mul (Native current_price) (demand_object 0) = Native 0"
    by (simp add: demand_object_def)
  have "\<exists>raws. scan_prices opt category current_price (demand_object 0) ?ps
      (Native current_price, Native 0, []) = Return (Native current_price, Native 0, raws)"
  proof (cases "current_price = 0")
    case True
    from scan_prices_zero_keep [of 0 opt category ?ps "Native 0" 0 "Native 0" "[]"] True
    show ?thesis by simp
  next
    case False
    have "\<forall>pt\<in>set (map (point_at (elasticity_get opt category) current_price 0) ?ps).
        sp_revenue pt \<le> 0"
      by (simp add: point_at_def)
    with scan_prices_nonzero [OF False, of 0 "Native current_price" current_price "Native 0" 0
        opt category ?ps "[]"]
    show ?thesis by auto
  qed
  then obtain raws where "scan_prices opt category current_price (demand_object 0) ?ps
      (Native current_price, Native 0, []) = Return (Native current_price, Native 0, raws)"
    by blast
  then show ?thesis
    unfolding optimize_price_def Let_def bd outcome.case base
    by simp
qed

text \<open>
  The price 0 with a positive base demand: the loop keeps the native best price when
  the elasticity is not positive or both bounds are 0, and the second division of the
  return statement raises.
\<close>

lemma optimize_price_zero_price_raises:
  assumes bd: "forecast_demand opt (product_data(''Price'' \<mapsto> Num 0)) = Return base_demand"
    and keep: "elasticity_get opt category \<le> 0 \<or>
      (lower_bound 0 min_price = 0 \<and> upper_bound 0 max_price = 0)"
  shows "optimize_price opt product_data 0 category min_price max_price =
    (product_data(''Price'' \<mapsto> Num 0), Raise ZeroDivisionError)"
proof (cases "base_demand = 0")
  case True
  with bd show ?thesis by (simp add: optimize_price_zero_demand)
next
  case False
  let ?ps = "linspace (lower_bound 0 min_price) (upper_bound 0 max_price) 50"
  from forecast_demand_nonneg [OF bd] False have pos: "0 < base_demand" by simp
  then have base: "py_mul (Native 0) (demand_object base_demand) = Numpy (Fin 0)"
    by (simp add: demand_object_def)
  from keep have "elasticity_get opt category \<le> 0 \<or> base_demand = 0 \<or> (\<forall>p\<in>set ?ps. p = 0)"
    using linspace_zero by auto
  from scan_prices_zero_keep [OF _ this, of "Numpy (Fin 0)" 0 "Native 0" "[]"] pos
  obtain raws where "scan_prices opt category 0 (demand_object base_demand) ?ps
      (Native 0, Numpy (Fin 0), []) = Return (Native 0, Numpy (Fin 0), raws)"
    by auto
  then show ?thesis
    unfolding optimize_price_def Let_def bd outcome.case base
    by (simp add: np_sub_def)
qed


text \<open>At the price 0 no call returns a finite result.\<close>

lemma optimize_price_zero_price_no_Return:
  "snd (optimize_price opt product_data 0 category min_price max_price) \<noteq> Return r"
proof (cases "forecast_demand opt (product_data(''Price'' \<mapsto> Num 0))")
  case (Return bd)
  let ?ps = "linspace (lower_bound 0 min_price) (upper_bound 0 max_price) 50"
  let ?base = "py_mul (Native 0) (demand_object bd)"
  from scan_prices_zero [of opt category "demand_object bd" ?ps "Native 0" ?base "[]"]
  obtain bp' br' raws where scan: "scan_prices opt category 0 (demand_object bd) ?ps
      (Native 0, ?base, []) = Return (bp', br', raws)"
    and len: "length raws = 50"
    and nf: "\<forall>raw\<in>set raws. real_of (sp_price_change_pct raw) = None"
    by (auto simp: linspace_length)
  from len obtain raw where raw: "raw \<in> set raws"
    by (cases raws) auto
  have nonfinite: "finite_result
      \<lparr>res_current_price = Native 0, res_optimal_price = bp',
       res_current_revenue = ?base, res_optimal_revenue = br',
       res_revenue_increase_pct = a, res_price_change_pct = b,
       res_simulation_results = raws\<rparr> = NonFinite" for a b
    using raw nf by (intro finite_result_NonFinite [of raw]) simp_all
  show ?thesis
    unfolding optimize_price_def Let_def Return outcome.case scan prod.case
    by (simp add: nonfinite split: outcome.splits)
next
  case (Raise e)
  then show ?thesis by (simp add: optimize_price_def Let_def)
next
  case NonFinite
  then show ?thesis by (simp add: optimize_price_def Let_def)
qed

text \<open>Conversely, a call that returns had a non-zero price and a positive base demand.\<close>

lemma optimize_price_ReturnD:
  assumes "optimize_price opt product_data current_price category min_price max_price =
    (pd', Return r)"
  shows "current_price \<noteq> 0 \<and>
    (\<exists>base_demand. 0 < base_demand \<and>
       forecast_demand opt (product_data(''Price'' \<mapsto> Num current_price)) = Return base_demand)"
proof (cases "forecast_demand opt (product_data(''Price'' \<mapsto> Num current_price))")
  case (Return bd)
  have nz: "current_price \<noteq> 0"
  proof
    assume "current_price = 0"
    with assms optimize_price_zero_price_no_Return [of opt product_data category min_price
        max_price r]
    show False by simp
  qed
  have "bd \<noteq> 0"
  proof
    assume "bd = 0"
    with Return assms
      optimize_price_zero_demand [of opt product_data current_price category min_price max_price]
    show False by simp
  qed
  with forecast_demand_nonneg [OF Return] have "0 < bd" by simp
  with nz Return show ?thesis by simp
next
  case (Raise e)
  with assms show ?thesis by (simp add: optimize_price_def Let_def)
next
  case NonFinite
  with assms show ?thesis by (simp add: optimize_price_def Let_def)
qed

text \<open>
  An exception that leaves \<open>optimize_price\<close> is the estimator's, or the
  \<open>ZeroDivisionError\<close> of a zero base revenue.
\<close>

lemma optimize_price_Raise:
  assumes "snd (optimize_price opt product_data current_price category min_price max_price) =
    Raise e"
  shows "model_predict opt (prepare_features opt (product_data(''Price'' \<mapsto> Num current_price))) =
      Inl e \<or>
    (e = ZeroDivisionError \<and>
     (\<exists>base_demand.
        forecast_demand opt (product_data(''Price'' \<mapsto> Num current_price)) =
          Return base_demand \<and>
        current_price * base_demand = 0))"
proof (cases "forecast_demand opt (product_data(''Price'' \<mapsto> Num current_price))")
  case (Return bd)
  show ?thesis
  proof (cases "current_price * bd = 0")
    case True
    let ?ps = "linspace (lower_bound current_price min_price)
      (upper_bound current_price max_price) 50"
    let ?base = "py_mul (Native current_price) (demand_object bd)"
    have "real_of ?base \<noteq> None"
      by (simp add: py_mul_finite real_of_demand_object forecast_demand_nonneg [OF Return])
    from scan_prices_Return [OF forecast_demand_nonneg [OF Return] _ this,
        of "Native current_price" opt category current_price ?ps "[]"]
    obtain bp' br' raws where scan: "scan_prices opt category current_price (demand_object bd) ?ps
        (Native current_price, ?base, []) = Return (bp', br', raws)"
      by auto
    from assms have "e = ZeroDivisionError"
      unfolding optimize_price_def Let_def Return outcome.case scan prod.case
      by (auto simp: finite_result_def dest: py_truediv_Raise
          split: outcome.splits option.splits)
    with True Return show ?thesis by simp
  next
    case False
    then have "current_price \<noteq> 0" "bd \<noteq> 0" by simp_all
    from optimize_price_returns [OF this(1) Return this(2), of category min_price max_price]
      assms
    show ?thesis by simp
  qed
next
  case (Raise e')
  with assms have "e' = e" by (simp add: optimize_price_def Let_def)
  with Raise show ?thesis by (simp add: forecast_demand_def split: sum.splits)
next
  case NonFinite
  with forecast_demand_not_NonFinite show ?thesis by blast
qed

section \<open>The example estimators\<close>

lemma price_model_forecast:
  "forecast_demand (init price_model) (pd(''Price'' \<mapsto> Num c)) =
     (if c > 100 then Raise (OtherError ''ValueError'')
      else Return (if 2000 - 100 * c > 0 then 2000 - 100 * c else 0))"
  by (simp add: forecast_demand_def prepare_features_def init_def price_model_def)

lemma constant_model_forecast:
  "forecast_demand (init (constant_model d)) pd = Return (if d > 0 then d else 0)"
  by (simp add: forecast_demand_def init_def constant_model_def)

section \<open>The caller's dictionary\<close>

text \<open>
  Claim C10. \<open>optimize_price\<close> mutates the caller's \<open>product_data\<close> in place: whatever
  the outcome of the call, the dictionary the caller holds afterwards has
  \<open>current_price\<close> under \<open>'Price'\<close> and every other entry as before; and the
  assignment precedes the baseline forecast, which is made on the updated dictionary.
\<close>

theorem optimize_price_sets_price:
  "fst (optimize_price opt product_data current_price category min_price max_price) ''Price'' =
     Some (Num current_price) \<and>
   (\<forall>key. key \<noteq> ''Price'' \<longrightarrow>
      fst (optimize_price opt product_data current_price category min_price max_price) key =
        product_data key) \<and>
   (\<forall>r. snd (optimize_price opt product_data current_price category min_price max_price) =
        Return r \<longrightarrow>
      (\<exists>base_demand.
         forecast_demand opt
           (fst (optimize_price opt product_data current_price category min_price max_price)) =
           Return base_demand \<and>
         res_current_revenue r = current_price * base_demand))"
proof (intro conjI allI impI)
  fix r
  assume "snd (optimize_price opt product_data current_price category min_price max_price) =
    Return r"
  then have ret: "optimize_price opt product_data current_price category min_price max_price =
    (product_data(''Price'' \<mapsto> Num current_price), Return r)"
    using optimize_price_fst [of opt product_data current_price category min_price max_price]
    by (simp add: prod_eq_iff)
  from optimize_price_ReturnD [OF ret] obtain bd where bd: "current_price \<noteq> 0" "0 < bd"
    "forecast_demand opt (product_data(''Price'' \<mapsto> Num current_price)) = Return bd"
    by blast
  from optimize_price_returns [OF bd(1) bd(3), of category min_price max_price] bd(2) ret
  have "res_current_revenue r = current_price * bd" by auto
  with bd(3) show "\<exists>base_demand.
         forecast_demand opt
           (fst (optimize_price opt product_data current_price category min_price max_price)) =
           Return base_demand \<and>
         res_current_revenue r = current_price * base_demand"
    by (simp add: optimize_price_fst)
qed (simp_all add: optimize_price_fst)

text \<open>
  A product listed at 12.5 and optimised at 10, with the estimator that reads the price:
  the dictionary holds 10 afterwards, the promotion flag is untouched, and the baseline
  revenue is that of the demand forecast at 10 (1000 units), not at 12.5 (750 units).
\<close>

theorem optimize_price_sets_price_witness:
  "fst (optimize_price (init price_model) (sample_product ''Snacks'' 12.5) 10 (Str ''Snacks'') None None)
     ''Price'' = Some (Num 10) \<and>
   ''Promotion'' \<noteq> ''Price'' \<and>
   fst (optimize_price (init price_model) (sample_product ''Snacks'' 12.5) 10 (Str ''Snacks'') None None)
     ''Promotion'' = Some (Num 0) \<and>
   (case snd (optimize_price (init price_model) (sample_product ''Snacks'' 12.5) 10 (Str ''Snacks'')
        None None) of
      Return r \<Rightarrow> res_current_revenue r = 10 * 1000
    | _ \<Rightarrow> False)"
proof -
  let ?call = "optimize_price (init price_model) (sample_product ''Snacks'' 12.5) 10 (Str ''Snacks'')
    None None"
  have fd: "forecast_demand (init price_model) ((sample_product ''Snacks'' 12.5)(''Price'' \<mapsto> Num 10)) =
    Return 1000"
    by (simp add: price_model_forecast)
  from optimize_price_returns [OF _ fd, of "Str ''Snacks''" None None]
  obtain r where r: "?call = ((sample_product ''Snacks'' 12.5)(''Price'' \<mapsto> Num 10), Return r)"
    by simp
  from optimize_price_sets_price
    [of "init price_model" "sample_product ''Snacks'' 12.5" 10 "Str ''Snacks''" None None]
  have "fst ?call ''Price'' = Some (Num 10)"
    and "fst ?call ''Promotion'' = (sample_product ''Snacks'' 12.5) ''Promotion''"
    and "\<exists>bd. forecast_demand (init price_model) (fst ?call) = Return bd \<and>
      res_current_revenue r = 10 * bd"
    using r by simp_all
  then show ?thesis using r fd by (simp add: sample_product_def)
qed

section \<open>The demand forecast\<close>

text \<open>
  Claim C8. \<open>forecast_demand\<close> returns the estimator's output clamped at zero: when
  the estimator returns a raw estimate, the call returns (it raises nothing, also for a
  negative estimate); the result is exactly 0 for a negative raw estimate and the raw
  estimate itself otherwise.
\<close>

theorem forecast_demand_clamps:
  assumes "model_predict opt (prepare_features opt product_data) = Inr raw"
  shows "forecast_demand opt product_data = Return (max 0 raw) \<and>
    (raw < 0 \<longrightarrow> forecast_demand opt product_data = Return 0) \<and>
    (0 \<le> raw \<longrightarrow> forecast_demand opt product_data = Return raw)"
  using assms by (simp add: forecast_demand_def max_def)

text \<open>
  At a price of 30 the estimator that reads the price gives \<open>2000 - 3000 = - 1000\<close>,
  and the forecast is 0; at a price of 5 it gives 1500, and the forecast is 1500.
\<close>

theorem forecast_demand_clamps_witness:
  "model_predict (init price_model) (prepare_features (init price_model) (sample_product ''Dairy'' 30)) =
     Inr (- 1000) \<and>
   forecast_demand (init price_model) (sample_product ''Dairy'' 30) = Return 0 \<and>
   model_predict (init price_model) (prepare_features (init price_model) (sample_product ''Dairy'' 5)) =
     Inr 1500 \<and>
   forecast_demand (init price_model) (sample_product ''Dairy'' 5) = Return 1500"
proof -
  have neg: "model_predict (init price_model)
      (prepare_features (init price_model) (sample_product ''Dairy'' 30)) = Inr (- 1000)"
    by (simp add: init_def prepare_features_def sample_product_def price_model_def)
  have pos: "model_predict (init price_model)
      (prepare_features (init price_model) (sample_product ''Dairy'' 5)) = Inr 1500"
    by (simp add: init_def prepare_features_def sample_product_def price_model_def)
  from forecast_demand_clamps [OF neg] forecast_demand_clamps [OF pos] neg pos
  show ?thesis by simp
qed

section \<open>The baseline\<close>

text \<open>
  Claim C3. Whenever \<open>optimize_price\<close> returns a result, its \<open>current_revenue\<close> is the
  base revenue \<open>current_price * base_demand\<close> of the forecast at the current price, and
  its \<open>optimal_revenue\<close> is at least that: the pair of the current price and the base
  revenue is the initial best candidate, and the returned pair is either that pair or
  a point of the trace of strictly greater revenue. No condition on the bounds is
  needed.
\<close>

theorem optimize_price_baseline_inclusion:
  assumes "optimize_price opt product_data current_price category min_price max_price =
    (pd', Return r)"
  shows "\<exists>base_demand.
    forecast_demand opt (product_data(''Price'' \<mapsto> Num current_price)) = Return base_demand \<and>
    res_current_revenue r = current_price * base_demand \<and>
    res_current_revenue r \<le> res_optimal_revenue r \<and>
    ((res_optimal_price r = current_price \<and> res_optimal_revenue r = res_current_revenue r) \<or>
     (\<exists>pt\<in>set (res_simulation_results r).
        res_optimal_price r = sp_price pt \<and> res_optimal_revenue r = sp_revenue pt \<and>
        res_current_revenue r < sp_revenue pt))"
proof -
  from optimize_price_ReturnD [OF assms] obtain bd where bd: "current_price \<noteq> 0" "0 < bd"
    "forecast_demand opt (product_data(''Price'' \<mapsto> Num current_price)) = Return bd"
    by blast
  let ?T = "simulate opt category current_price bd min_price max_price"
  let ?b = "best_of ?T (current_price, current_price * bd)"
  from optimize_price_returns [OF bd(1) bd(3), of category min_price max_price] bd(2) assms
  have r: "res_current_revenue r = current_price * bd" "res_optimal_revenue r = snd ?b"
    "res_optimal_price r = fst ?b" "res_simulation_results r = ?T"
    by auto
  have ge: "res_current_revenue r \<le> res_optimal_revenue r"
    using best_of_ge [of "current_price * bd" ?T current_price] r by simp
  have "(res_optimal_price r = current_price \<and> res_optimal_revenue r = res_current_revenue r) \<or>
     (\<exists>pt\<in>set (res_simulation_results r).
        res_optimal_price r = sp_price pt \<and> res_optimal_revenue r = sp_revenue pt \<and>
        res_current_revenue r < sp_revenue pt)"
    using best_of_cases [of ?T current_price "current_price * bd"]
  proof
    assume "?b = (current_price, current_price * bd) \<and>
      (\<forall>j<length ?T. sp_revenue (?T ! j) \<le> current_price * bd)"
    with r show ?thesis by simp
  next
    assume "\<exists>i<length ?T. ?b = (sp_price (?T ! i), sp_revenue (?T ! i)) \<and>
      current_price * bd < sp_revenue (?T ! i) \<and>
      (\<forall>j<i. sp_revenue (?T ! j) < sp_revenue (?T ! i)) \<and>
      (\<forall>j<length ?T. sp_revenue (?T ! j) \<le> sp_revenue (?T ! i))"
    then obtain i where i: "i < length ?T" "?b = (sp_price (?T ! i), sp_revenue (?T ! i))"
      "current_price * bd < sp_revenue (?T ! i)"
      by blast
    from i(1) have "?T ! i \<in> set (res_simulation_results r)"
      using r(4) nth_mem by metis
    with i r show ?thesis by auto
  qed
  with bd(3) r(1) ge show ?thesis by blast
qed

text \<open>
  A household product at price 10 with a constant demand estimate of 1000 and the
  default bounds: the call returns, its baseline revenue is 10000 and the optimal
  revenue is not below it.
\<close>

theorem optimize_price_baseline_inclusion_witness:
  "(case snd (optimize_price (init (constant_model 1000)) (sample_product ''Household'' 10) 10
        (Str ''Household'') None None) of
      Return r \<Rightarrow> res_current_revenue r = 10000 \<and> 10000 \<le> res_optimal_revenue r
    | _ \<Rightarrow> False)"
proof -
  have fd: "forecast_demand (init (constant_model 1000))
      ((sample_product ''Household'' 10)(''Price'' \<mapsto> Num 10)) = Return 1000"
    by (simp add: constant_model_forecast)
  from optimize_price_returns [OF _ fd, of "Str ''Household''" None None]
  obtain r where r: "optimize_price (init (constant_model 1000)) (sample_product ''Household'' 10) 10
      (Str ''Household'') None None =
      ((sample_product ''Household'' 10)(''Price'' \<mapsto> Num 10), Return r)"
    by simp
  from optimize_price_baseline_inclusion [OF r] fd
  have "res_current_revenue r = 10000 \<and> 10000 \<le> res_optimal_revenue r"
    by auto
  with r show ?thesis by simp
qed

section \<open>The trace\<close>

lemma simulate_length [simp]:
  "length (simulate opt category current_price base_demand min_price max_price) = 50"
  by (simp add: simulate_def linspace_length)

lemma simulate_nth:
  "i < 50 \<Longrightarrow>
   simulate opt category current_price base_demand min_price max_price ! i =
     point_at (elasticity_get opt category) current_price base_demand
       (lower_bound current_price min_price +
        real i * ((upper_bound current_price max_price - lower_bound current_price min_price) / 49))"
  by (simp add: simulate_def linspace_length linspace_nth)

lemma simulate_demand:
  "pt \<in> set (simulate opt category current_price base_demand min_price max_price) \<Longrightarrow>
   sp_demand pt = base_demand * (1 + elasticity_get opt category * sp_price_change_pct pt)"
  by (auto simp: simulate_def point_at_def)

lemma simulate_revenue:
  "pt \<in> set (simulate opt category current_price base_demand min_price max_price) \<Longrightarrow>
   sp_revenue pt = sp_price pt * sp_demand pt"
  by (auto simp: simulate_def point_at_def)

section \<open>A zero baseline\<close>

lemma forecast_demand_with_elasticity:
  "forecast_demand (with_elasticity opt category e) pd = forecast_demand opt pd"
  by (simp add: forecast_demand_def prepare_features_def with_elasticity_def)

lemma elasticity_get_with_elasticity:
  "elasticity_get (with_elasticity opt category e) category = e"
  by (simp add: elasticity_get_def with_elasticity_def)




section \<open>Unknown categories\<close>

lemma scan_prices_elasticity:
  "elasticity_get opt category = elasticity_get opt' category \<Longrightarrow>
   scan_prices opt category current_price base_demand ps st =
   scan_prices opt' category current_price base_demand ps st"
proof (induction ps arbitrary: st)
  case Nil
  show ?case by simp
next
  case (Cons p ps)
  obtain bp br rs where st: "st = (bp, br, rs)" by (cases st)
  show ?case unfolding st
    by (simp add: Cons Let_def split: outcome.splits)
qed

text \<open>
  Claim C9. For a category that is not a key of the elasticity table the lookup yields
  \<open>- 1\<close> and raises nothing: the call behaves in every respect as the call to an
  optimizer whose table maps the category to \<open>- 1\<close>; an exception that leaves it is
  the estimator's own or the \<open>ZeroDivisionError\<close> of a zero base revenue, never one of
  the lookup; and in a returned trace every candidate's demand is the base demand
  adjusted with the elasticity \<open>- 1\<close>.
\<close>

theorem optimize_price_unknown_category:
  assumes "elasticities opt category = None"
  shows "elasticity_get opt category = - 1 \<and>
    optimize_price opt product_data current_price category min_price max_price =
      optimize_price (opt\<lparr>elasticities := (elasticities opt)(category \<mapsto> - 1)\<rparr>)
        product_data current_price category min_price max_price \<and>
    (\<forall>e. snd (optimize_price opt product_data current_price category min_price max_price) =
         Raise e \<longrightarrow>
       model_predict opt (prepare_features opt (product_data(''Price'' \<mapsto> Num current_price))) =
         Inl e \<or>
       (e = ZeroDivisionError \<and>
        (\<exists>base_demand.
           forecast_demand opt (product_data(''Price'' \<mapsto> Num current_price)) =
             Return base_demand \<and>
           current_price * base_demand = 0))) \<and>
    (\<forall>r. snd (optimize_price opt product_data current_price category min_price max_price) =
         Return r \<longrightarrow>
       (\<exists>base_demand.
          forecast_demand opt (product_data(''Price'' \<mapsto> Num current_price)) =
            Return base_demand \<and>
          (\<forall>pt\<in>set (res_simulation_results r).
             sp_demand pt = base_demand * (1 + (- 1) * sp_price_change_pct pt))))"
proof (intro conjI allI impI)
  let ?opt' = "opt\<lparr>elasticities := (elasticities opt)(category \<mapsto> - 1)\<rparr>"
  show e: "elasticity_get opt category = - 1"
    using assms by (simp add: elasticity_get_def)
  have "elasticity_get opt category = elasticity_get ?opt' category"
    using assms by (simp add: elasticity_get_def)
  then have scan: "\<And>c bd ps st. scan_prices opt category c bd ps st =
      scan_prices ?opt' category c bd ps st"
    by (rule scan_prices_elasticity)
  have fd: "\<And>pd. forecast_demand ?opt' pd = forecast_demand opt pd"
    by (simp add: forecast_demand_def prepare_features_def)
  show "optimize_price opt product_data current_price category min_price max_price =
      optimize_price ?opt' product_data current_price category min_price max_price"
    by (simp add: optimize_price_def scan fd Let_def cong: outcome.case_cong)
  {
    fix ex
    assume "snd (optimize_price opt product_data current_price category min_price max_price) =
      Raise ex"
    then show "model_predict opt
        (prepare_features opt (product_data(''Price'' \<mapsto> Num current_price))) = Inl ex \<or>
      (ex = ZeroDivisionError \<and>
       (\<exists>base_demand.
          forecast_demand opt (product_data(''Price'' \<mapsto> Num current_price)) =
            Return base_demand \<and>
          current_price * base_demand = 0))"
      by (rule optimize_price_Raise)
  }
  {
    fix r
    assume "snd (optimize_price opt product_data current_price category min_price max_price) =
      Return r"
    then have ret: "optimize_price opt product_data current_price category min_price max_price =
      (product_data(''Price'' \<mapsto> Num current_price), Return r)"
      using optimize_price_fst [of opt product_data current_price category min_price max_price]
      by (simp add: prod_eq_iff)
    from optimize_price_ReturnD [OF ret] obtain bd where bd: "current_price \<noteq> 0" "0 < bd"
      "forecast_demand opt (product_data(''Price'' \<mapsto> Num current_price)) = Return bd"
      by blast
    from optimize_price_returns [OF bd(1) bd(3), of category min_price max_price] bd(2) ret
    have "res_simulation_results r = simulate opt category current_price bd min_price max_price"
      by auto
    with e have "\<forall>pt\<in>set (res_simulation_results r).
        sp_demand pt = bd * (1 + (- 1) * sp_price_change_pct pt)"
      using simulate_demand [of _ opt category current_price bd min_price max_price]
      by simp
    with bd(3) show "\<exists>base_demand.
        forecast_demand opt (product_data(''Price'' \<mapsto> Num current_price)) = Return base_demand \<and>
        (\<forall>pt\<in>set (res_simulation_results r).
           sp_demand pt = base_demand * (1 + (- 1) * sp_price_change_pct pt))"
      by blast
  }
qed

text \<open>
  \<open>'Toys'\<close> is not in the table of \<open>__init__\<close>. At price 10 with a constant estimate
  of 1000 and the default bounds the first candidate is 7, a price change of
  \<open>- 0.3\<close>, and its demand is \<open>1000 * (1 + 0.3) = 1300\<close>. At price 0 with the
  bounds 1 and 2 the base revenue is \<open>0 * 1000 = 0\<close> and the call raises
  \<open>ZeroDivisionError\<close>.
\<close>

theorem optimize_price_unknown_category_witness:
  "elasticities (init (constant_model 1000)) (Str ''Toys'') = None \<and>
   elasticity_get (init (constant_model 1000)) (Str ''Toys'') = - 1 \<and>
   (case snd (optimize_price (init (constant_model 1000)) (sample_product ''Toys'' 10) 10 (Str ''Toys'')
        None None) of
      Return r \<Rightarrow>
        sp_price (res_simulation_results r ! 0) = 7 \<and>
        sp_demand (res_simulation_results r ! 0) = 1300
    | _ \<Rightarrow> False) \<and>
   snd (optimize_price (init (constant_model 1000)) (sample_product ''Toys'' 0) 0 (Str ''Toys'')
     (Some 1) (Some 2)) = Raise ZeroDivisionError \<and>
   forecast_demand (init (constant_model 1000))
     ((sample_product ''Toys'' 0)(''Price'' \<mapsto> Num 0)) = Return 1000 \<and>
   0 * (1000::real) = 0"
proof -
  let ?opt = "init (constant_model 1000)"
  let ?T = "simulate ?opt (Str ''Toys'') 10 1000 None None"
  have none: "elasticities ?opt (Str ''Toys'') = None"
    by (simp add: init_def)
  have fd: "forecast_demand ?opt ((sample_product ''Toys'' 10)(''Price'' \<mapsto> Num 10)) = Return 1000"
    by (simp add: constant_model_forecast)
  from optimize_price_returns [OF _ fd, of "Str ''Toys''" None None]
  obtain r where r: "optimize_price ?opt (sample_product ''Toys'' 10) 10 (Str ''Toys'') None None =
      ((sample_product ''Toys'' 10)(''Price'' \<mapsto> Num 10), Return r)"
    and T: "res_simulation_results r = ?T"
    by simp
  note inst = optimize_price_unknown_category
    [OF none, of "sample_product ''Toys'' 10" 10 None None]
  from inst have e: "elasticity_get ?opt (Str ''Toys'') = - 1"
    by simp
  have first: "?T ! 0 \<in> set ?T"
    by (simp add: simulate_length)
  from inst r fd T have "\<forall>pt\<in>set ?T. sp_demand pt = 1000 * (1 + (- 1) * sp_price_change_pct pt)"
    by simp
  with first have "sp_demand (?T ! 0) = 1000 * (1 + (- 1) * sp_price_change_pct (?T ! 0))"
    by blast
  moreover have "sp_price_change_pct (?T ! 0) = - 3 / 10" "sp_price (?T ! 0) = 7"
    by (simp_all add: simulate_nth point_at_def lower_bound_def upper_bound_def)
  ultimately have "sp_price (?T ! 0) = 7 \<and> sp_demand (?T ! 0) = 1300"
    by simp
  moreover have fd0: "forecast_demand ?opt ((sample_product ''Toys'' 0)(''Price'' \<mapsto> Num 0)) =
      Return 1000"
    by (simp add: constant_model_forecast)
  moreover from optimize_price_unknown_category
      [OF none, of "sample_product ''Toys'' 0" 0 "Some 1" "Some 2"]
    optimize_price_zero_price_raises [OF fd0, of "Str ''Toys''" "Some 1" "Some 2"]
  have "snd (optimize_price ?opt (sample_product ''Toys'' 0) 0 (Str ''Toys'') (Some 1) (Some 2)) =
      Raise ZeroDivisionError"
    by simp
  ultimately show ?thesis using none e r T by simp
qed

lemma simulate_price:
  "i < 50 \<Longrightarrow>
   sp_price (simulate opt category current_price base_demand min_price max_price ! i) =
     lower_bound current_price min_price +
     real i * ((upper_bound current_price max_price - lower_bound current_price min_price) / 49)"
  by (simp add: simulate_nth point_at_def)

text \<open>What a returning call returns, with the trace named.\<close>

lemma optimize_price_ReturnE:
  assumes "optimize_price opt product_data current_price category min_price max_price =
    (pd', Return r)"
  obtains base_demand where "current_price \<noteq> 0" "0 < base_demand"
    "forecast_demand opt (product_data(''Price'' \<mapsto> Num current_price)) = Return base_demand"
    "res_simulation_results r =
       simulate opt category current_price base_demand min_price max_price"
    "res_current_revenue r = current_price * base_demand"
    "(res_optimal_price r, res_optimal_revenue r) =
       best_of (simulate opt category current_price base_demand min_price max_price)
         (current_price, current_price * base_demand)"
proof -
  from optimize_price_ReturnD [OF assms] obtain bd where bd: "current_price \<noteq> 0" "0 < bd"
    "forecast_demand opt (product_data(''Price'' \<mapsto> Num current_price)) = Return bd"
    by blast
  from optimize_price_returns [OF bd(1) bd(3), of category min_price max_price] bd(2) assms
  have "res_simulation_results r = simulate opt category current_price bd min_price max_price"
    "res_current_revenue r = current_price * bd"
    "(res_optimal_price r, res_optimal_revenue r) =
       best_of (simulate opt category current_price bd min_price max_price)
         (current_price, current_price * bd)"
    by auto
  with bd that show thesis by blast
qed

section \<open>The grid of candidate prices\<close>

text \<open>
  Claim C5. The trace of a returning call has exactly 50 points; the price of point
  \<open>i\<close> is \<open>lo + i * (hi - lo) / 49\<close>, where \<open>lo\<close> and \<open>hi\<close> are the bounds in force
  (the arguments, or 0.7 and 1.3 times the current price); the first price is \<open>lo\<close> and
  the fiftieth is \<open>hi\<close>; the prices ascend when \<open>lo \<le> hi\<close>, strictly when \<open>lo < hi\<close>.
  Over the reals the endpoints are exact.
\<close>

theorem optimize_price_grid:
  assumes "optimize_price opt product_data current_price category min_price max_price =
    (pd', Return r)"
  shows "length (res_simulation_results r) = 50 \<and>
    (\<forall>i<50. sp_price (res_simulation_results r ! i) =
       lower_bound current_price min_price +
       real i * ((upper_bound current_price max_price - lower_bound current_price min_price) / 49)) \<and>
    sp_price (res_simulation_results r ! 0) = lower_bound current_price min_price \<and>
    sp_price (res_simulation_results r ! 49) = upper_bound current_price max_price \<and>
    (lower_bound current_price min_price \<le> upper_bound current_price max_price \<longrightarrow>
       sorted (map sp_price (res_simulation_results r))) \<and>
    (lower_bound current_price min_price < upper_bound current_price max_price \<longrightarrow>
       sorted_wrt (<) (map sp_price (res_simulation_results r)))"
proof -
  let ?lo = "lower_bound current_price min_price"
  let ?hi = "upper_bound current_price max_price"
  from assms obtain bd where
    T: "res_simulation_results r = simulate opt category current_price bd min_price max_price"
    by (rule optimize_price_ReturnE)
  have len: "length (res_simulation_results r) = 50"
    by (simp add: T)
  have nth: "sp_price (res_simulation_results r ! i) = ?lo + real i * ((?hi - ?lo) / 49)"
    if "i < 50" for i
    using that by (simp add: T simulate_price)
  have first: "sp_price (res_simulation_results r ! 0) = ?lo"
    using nth [of 0] by simp
  have last: "sp_price (res_simulation_results r ! 49) = ?hi"
    using nth [of 49] by (simp add: diff_divide_distrib)
  have asc: "sorted (map sp_price (res_simulation_results r))" if le: "?lo \<le> ?hi"
  proof -
    have "sp_price (res_simulation_results r ! i) \<le> sp_price (res_simulation_results r ! j)"
      if "i \<le> j" "j < 50" for i j
    proof -
      from le have "0 \<le> (?hi - ?lo) / 49" by simp
      moreover from that have "real i \<le> real j" by simp
      ultimately have "real i * ((?hi - ?lo) / 49) \<le> real j * ((?hi - ?lo) / 49)"
        by (rule mult_right_mono [rotated])
      with that show ?thesis by (simp add: nth)
    qed
    then show ?thesis by (simp add: sorted_iff_nth_mono len)
  qed
  have strict: "sorted_wrt (<) (map sp_price (res_simulation_results r))" if lt: "?lo < ?hi"
  proof -
    have "sp_price (res_simulation_results r ! i) < sp_price (res_simulation_results r ! j)"
      if "i < j" "j < 50" for i j
    proof -
      from lt have "0 < (?hi - ?lo) / 49" by simp
      moreover from that have "real i < real j" by simp
      ultimately have "real i * ((?hi - ?lo) / 49) < real j * ((?hi - ?lo) / 49)"
        by (simp add: mult_strict_right_mono)
      with that show ?thesis by (simp add: nth)
    qed
    then show ?thesis by (simp add: sorted_wrt_iff_nth_less len)
  qed
  from len nth first last asc strict show ?thesis by blast
qed

text \<open>
  The symmetric example of the spec: bounds 9 and 11 around the price 10. The call
  returns 50 points; the first price is 9, the second \<open>9 + 2 / 49\<close>, the last 11.
\<close>

theorem optimize_price_grid_witness:
  "(case snd (optimize_price (init (constant_model 1000)) (sample_product ''Toys'' 10) 10 (Str ''Toys'')
        (Some 9) (Some 11)) of
      Return r \<Rightarrow>
        length (res_simulation_results r) = 50 \<and>
        sp_price (res_simulation_results r ! 0) = 9 \<and>
        sp_price (res_simulation_results r ! 1) = 9 + 2 / 49 \<and>
        sp_price (res_simulation_results r ! 49) = 11 \<and>
        sorted (map sp_price (res_simulation_results r))
    | _ \<Rightarrow> False)"
proof -
  have fd: "forecast_demand (init (constant_model 1000))
      ((sample_product ''Toys'' 10)(''Price'' \<mapsto> Num 10)) = Return 1000"
    by (simp add: constant_model_forecast)
  from optimize_price_returns [OF _ fd, of "Str ''Toys''" "Some 9" "Some 11"]
  obtain r where r: "optimize_price (init (constant_model 1000)) (sample_product ''Toys'' 10) 10
      (Str ''Toys'') (Some 9) (Some 11) =
      ((sample_product ''Toys'' 10)(''Price'' \<mapsto> Num 10), Return r)"
    by simp
  from optimize_price_grid [OF r]
  have "length (res_simulation_results r) = 50 \<and>
        sp_price (res_simulation_results r ! 0) = 9 \<and>
        sp_price (res_simulation_results r ! 1) = 9 + 2 / 49 \<and>
        sp_price (res_simulation_results r ! 49) = 11 \<and>
        sorted (map sp_price (res_simulation_results r))"
    by (simp add: lower_bound_def upper_bound_def)
  with r show ?thesis by simp
qed

section \<open>Demand and revenue of the candidates\<close>

lemma init_elasticity_bound: "\<bar>elasticity_get (init model) category\<bar> \<le> 10 / 3"
  by (simp add: elasticity_get_def init_def)

text \<open>
  Claim C2, as the spec states it, fails: the adjusted demand is not clamped. With the
  bounds 10 and 20 around the price 10, a base demand of 1000 and the elasticity
  \<open>- 1.4\<close> of Snacks, the last candidate (price 20, a price change of 1) has the
  demand \<open>1000 * (1 - 1.4) = - 400\<close> and the revenue \<open>- 8000\<close>.
\<close>

theorem optimize_price_points_counterexample:
  "(case snd (optimize_price (init (constant_model 1000)) (sample_product ''Snacks'' 10) 10
        (Str ''Snacks'') (Some 10) (Some 20)) of
      Return r \<Rightarrow>
        sp_price (res_simulation_results r ! 49) = 20 \<and>
        sp_demand (res_simulation_results r ! 49) = - 400 \<and>
        sp_revenue (res_simulation_results r ! 49) = - 8000
    | _ \<Rightarrow> False)"
proof -
  have fd: "forecast_demand (init (constant_model 1000))
      ((sample_product ''Snacks'' 10)(''Price'' \<mapsto> Num 10)) = Return 1000"
    by (simp add: constant_model_forecast)
  have e: "elasticity_get (init (constant_model 1000)) (Str ''Snacks'') = - 14 / 10"
    by (simp add: elasticity_get_def init_def)
  show ?thesis
    by (simp add: optimize_price_returns [OF _ fd] simulate_nth point_at_def e
        lower_bound_def upper_bound_def)
qed

text \<open>
  Claim C2, amended. In the trace of every returning call each point has
  \<open>revenue = price * demand\<close>. When the call uses the default bounds (neither
  \<open>min_price\<close> nor \<open>max_price\<close> given), the current price is positive and the elasticity
  in force has magnitude at most \<open>10 / 3\<close> (as every entry of the table of \<open>__init__\<close>
  and the default \<open>- 1\<close> have), each point has a non-negative demand and a non-negative
  revenue.
\<close>

theorem optimize_price_points:
  assumes "optimize_price opt product_data current_price category min_price max_price =
      (pd', Return r)"
    and "pt \<in> set (res_simulation_results r)"
  shows "sp_revenue pt = sp_price pt * sp_demand pt \<and>
    (0 < current_price \<and> min_price = None \<and> max_price = None \<and>
     \<bar>elasticity_get opt category\<bar> \<le> 10 / 3 \<longrightarrow>
       0 \<le> sp_demand pt \<and> 0 \<le> sp_revenue pt)"
proof (intro conjI impI)
  from assms(1) obtain bd where bd: "current_price \<noteq> 0" "0 < bd"
    and T: "res_simulation_results r =
      simulate opt category current_price bd min_price max_price"
    by (rule optimize_price_ReturnE)
  from assms(2) T show rev: "sp_revenue pt = sp_price pt * sp_demand pt"
    by (simp add: simulate_revenue)
  assume h: "0 < current_price \<and> min_price = None \<and> max_price = None \<and>
    \<bar>elasticity_get opt category\<bar> \<le> 10 / 3"
  let ?e = "elasticity_get opt category"
  from assms(2) T obtain i where i: "i < 50"
    "pt = simulate opt category current_price bd min_price max_price ! i"
    by (auto simp: in_set_conv_nth)
  define q where "q = - 3 / 10 + 6 / 10 * (real i / 49)"
  have "0 \<le> real i / 49" by simp
  moreover from i(1) have "real i / 49 \<le> 1" by simp
  ultimately have q: "\<bar>q\<bar> \<le> 3 / 10"
    unfolding q_def abs_le_iff by (intro conjI) linarith+
  have price: "sp_price pt = current_price * (1 + q)"
    using h i by (simp add: simulate_nth point_at_def lower_bound_def upper_bound_def q_def
        algebra_simps)
  have pct: "sp_price_change_pct pt = q"
    using h i by (simp add: simulate_nth point_at_def lower_bound_def upper_bound_def q_def
        field_simps)
  have dem: "sp_demand pt = bd * (1 + ?e * q)"
    using assms(2) T pct by (simp add: simulate_demand)
  have "\<bar>?e * q\<bar> \<le> 10 / 3 * (3 / 10)"
    unfolding abs_mult using h q by (intro mult_mono) simp_all
  then have "0 \<le> 1 + ?e * q"
    by (simp add: abs_le_iff)
  with bd(2) dem show d: "0 \<le> sp_demand pt"
    by simp
  from q have "0 \<le> 1 + q" by (simp add: abs_le_iff)
  with h price have "0 \<le> sp_price pt" by simp
  with d rev show "0 \<le> sp_revenue pt" by simp
qed

text \<open>
  The Snacks product at price 10 with the default bounds: the last candidate, price 13,
  has the demand \<open>1000 * (1 - 1.4 * 0.3) = 580\<close> and the revenue 7540.
\<close>

theorem optimize_price_points_witness:
  "(case snd (optimize_price (init (constant_model 1000)) (sample_product ''Snacks'' 10) 10
        (Str ''Snacks'') None None) of
      Return r \<Rightarrow>
        res_simulation_results r ! 49 \<in> set (res_simulation_results r) \<and>
        sp_demand (res_simulation_results r ! 49) = 580 \<and>
        sp_revenue (res_simulation_results r ! 49) =
          sp_price (res_simulation_results r ! 49) * sp_demand (res_simulation_results r ! 49) \<and>
        0 \<le> sp_demand (res_simulation_results r ! 49) \<and>
        0 \<le> sp_revenue (res_simulation_results r ! 49)
    | _ \<Rightarrow> False)"
proof -
  let ?opt = "init (constant_model 1000)"
  let ?T = "simulate ?opt (Str ''Snacks'') 10 1000 None None"
  have fd: "forecast_demand ?opt ((sample_product ''Snacks'' 10)(''Price'' \<mapsto> Num 10)) = Return 1000"
    by (simp add: constant_model_forecast)
  from optimize_price_returns [OF _ fd, of "Str ''Snacks''" None None]
  obtain r where r: "optimize_price ?opt (sample_product ''Snacks'' 10) 10 (Str ''Snacks'') None None =
      ((sample_product ''Snacks'' 10)(''Price'' \<mapsto> Num 10), Return r)"
    and T: "res_simulation_results r = ?T"
    by simp
  have mem: "res_simulation_results r ! 49 \<in> set (res_simulation_results r)"
    by (simp add: T)
  have e: "elasticity_get ?opt (Str ''Snacks'') = - 14 / 10"
    by (simp add: elasticity_get_def init_def)
  have d: "sp_demand (res_simulation_results r ! 49) = 580"
    by (simp add: T simulate_nth point_at_def e lower_bound_def upper_bound_def)
  from optimize_price_points [OF r mem] init_elasticity_bound [of "constant_model 1000"]
  have "sp_revenue (res_simulation_results r ! 49) =
      sp_price (res_simulation_results r ! 49) * sp_demand (res_simulation_results r ! 49) \<and>
    0 \<le> sp_demand (res_simulation_results r ! 49) \<and>
    0 \<le> sp_revenue (res_simulation_results r ! 49)"
    by simp
  with r mem d show ?thesis by simp
qed

section \<open>Zero elasticity\<close>

lemma simulate_price_le:
  assumes "lower_bound current_price min_price \<le> upper_bound current_price max_price"
    and "i < 50"
  shows "sp_price (simulate opt category current_price base_demand min_price max_price ! i) \<le>
    upper_bound current_price max_price"
proof -
  let ?lo = "lower_bound current_price min_price"
  let ?hi = "upper_bound current_price max_price"
  from assms(2) have "real i / 49 \<le> 1" by simp
  moreover from assms(1) have "0 \<le> ?hi - ?lo" by simp
  ultimately have "real i / 49 * (?hi - ?lo) \<le> 1 * (?hi - ?lo)"
    by (rule mult_right_mono)
  then have "?lo + real i * ((?hi - ?lo) / 49) \<le> ?hi" by simp
  with assms(2) show ?thesis by (simp add: simulate_price)
qed

lemma simulate_price_le_max:
  assumes "i < 50"
  shows "sp_price (simulate opt category current_price base_demand min_price max_price ! i) \<le>
    max (lower_bound current_price min_price) (upper_bound current_price max_price)"
proof (cases "lower_bound current_price min_price \<le> upper_bound current_price max_price")
  case True
  from simulate_price_le [OF True assms, of opt category base_demand] True show ?thesis
    by simp
next
  case False
  let ?lo = "lower_bound current_price min_price"
  let ?hi = "upper_bound current_price max_price"
  from False have "(?hi - ?lo) / 49 \<le> 0" by simp
  then have "real i * ((?hi - ?lo) / 49) \<le> 0"
    by (simp add: mult_nonneg_nonpos)
  with assms False show ?thesis by (simp add: simulate_price)
qed

text \<open>
  With the elasticity 0 the revenue of a candidate is its price times the base demand,
  so the best price is the largest of the current price and the two bounds.
\<close>

lemma zero_elasticity_best:
  assumes "elasticity_get opt category = 0" "0 < bd"
  shows "fst (best_of (simulate opt category current_price bd min_price max_price)
      (current_price, current_price * bd)) =
    max current_price
      (max (lower_bound current_price min_price) (upper_bound current_price max_price))"
proof -
  let ?lo = "lower_bound current_price min_price"
  let ?hi = "upper_bound current_price max_price"
  let ?T = "simulate opt category current_price bd min_price max_price"
  have rev: "sp_revenue (?T ! i) = sp_price (?T ! i) * bd" if "i < 50" for i
  proof -
    from that have "?T ! i \<in> set ?T" by simp
    then show ?thesis using assms(1) by (simp add: simulate_revenue simulate_demand)
  qed
  have first: "sp_price (?T ! 0) = ?lo" and last: "sp_price (?T ! 49) = ?hi"
    by (simp_all add: simulate_price diff_divide_distrib)
  from best_of_cases [of ?T current_price "current_price * bd"] show ?thesis
  proof
    assume keep: "best_of ?T (current_price, current_price * bd) =
        (current_price, current_price * bd) \<and>
      (\<forall>j<length ?T. sp_revenue (?T ! j) \<le> current_price * bd)"
    then have "sp_revenue (?T ! 0) \<le> current_price * bd"
      "sp_revenue (?T ! 49) \<le> current_price * bd"
      by simp_all
    with assms(2) first last have "?lo \<le> current_price" "?hi \<le> current_price"
      by (simp_all add: rev)
    with keep show ?thesis by simp
  next
    assume "\<exists>i<length ?T.
      best_of ?T (current_price, current_price * bd) = (sp_price (?T ! i), sp_revenue (?T ! i)) \<and>
      current_price * bd < sp_revenue (?T ! i) \<and>
      (\<forall>j<i. sp_revenue (?T ! j) < sp_revenue (?T ! i)) \<and>
      (\<forall>j<length ?T. sp_revenue (?T ! j) \<le> sp_revenue (?T ! i))"
    then obtain i where i: "i < 50"
      "best_of ?T (current_price, current_price * bd) = (sp_price (?T ! i), sp_revenue (?T ! i))"
      "current_price * bd < sp_revenue (?T ! i)"
      "\<forall>j<length ?T. sp_revenue (?T ! j) \<le> sp_revenue (?T ! i)"
      by auto
    from i(4) have "sp_revenue (?T ! 0) \<le> sp_revenue (?T ! i)"
      "sp_revenue (?T ! 49) \<le> sp_revenue (?T ! i)"
      by simp_all
    with assms(2) i(1) first last have "?lo \<le> sp_price (?T ! i)" "?hi \<le> sp_price (?T ! i)"
      by (simp_all add: rev)
    moreover from i(1) have "sp_price (?T ! i) \<le> max ?lo ?hi"
      by (rule simulate_price_le_max)
    moreover from i(1,3) assms(2) have "current_price < sp_price (?T ! i)"
      by (simp add: rev)
    ultimately have "sp_price (?T ! i) = max current_price (max ?lo ?hi)"
      by simp
    with i(2) show ?thesis by simp
  qed
qed

text \<open>
  Claim C6, as the spec states it, fails where \<open>max_price\<close> is not the largest of the
  three prices: the current price is the initial best candidate, and the candidates
  run from \<open>min_price\<close> to \<open>max_price\<close> in whatever order these are given. With the
  elasticity 0, a base demand of 100 and the price 10: for the bounds 5 and 8 every
  candidate has a revenue of at most 800, the baseline is 1000, and the optimal price
  returned is 10, not 8; for the bounds 15 and 12 the first candidate, 15, has the
  greatest revenue and the optimal price returned is 15, not 12.
\<close>

theorem optimize_price_zero_elasticity_counterexample:
  "elasticity_get (with_elasticity (init (constant_model 100)) (Str ''Staples'') 0)
     (Str ''Staples'') = 0 \<and>
   (case snd (optimize_price (with_elasticity (init (constant_model 100)) (Str ''Staples'') 0)
        (sample_product ''Staples'' 10) 10 (Str ''Staples'') (Some 5) (Some 8)) of
      Return r \<Rightarrow> res_current_revenue r = 1000 \<and> res_optimal_price r = 10
    | _ \<Rightarrow> False) \<and>
   (case snd (optimize_price (with_elasticity (init (constant_model 100)) (Str ''Staples'') 0)
        (sample_product ''Staples'' 10) 10 (Str ''Staples'') (Some 15) (Some 12)) of
      Return r \<Rightarrow> res_current_revenue r = 1000 \<and> res_optimal_price r = 15
    | _ \<Rightarrow> False)"
proof -
  let ?opt = "with_elasticity (init (constant_model 100)) (Str ''Staples'') 0"
  have e: "elasticity_get ?opt (Str ''Staples'') = 0"
    by (rule elasticity_get_with_elasticity)
  have fd: "forecast_demand ?opt ((sample_product ''Staples'' 10)(''Price'' \<mapsto> Num 10)) =
      Return 100"
    by (simp add: forecast_demand_with_elasticity constant_model_forecast)
  have b1: "fst (best_of (simulate ?opt (Str ''Staples'') 10 100 (Some 5) (Some 8))
      (10, 1000)) = 10"
    using zero_elasticity_best [OF e, of 100 10 "Some 5" "Some 8"]
    by (simp add: lower_bound_def upper_bound_def)
  have b2: "fst (best_of (simulate ?opt (Str ''Staples'') 10 100 (Some 15) (Some 12))
      (10, 1000)) = 15"
    using zero_elasticity_best [OF e, of 100 10 "Some 15" "Some 12"]
    by (simp add: lower_bound_def upper_bound_def)
  show ?thesis
    by (simp add: optimize_price_returns [OF _ fd] e b1 b2)
qed

text \<open>
  Claim C6, amended. When the elasticity in force for the category is 0 and the call
  returns (so the base demand is positive), every candidate's adjusted demand equals
  the base demand, the revenue is strictly increasing in the candidate price, and the
  optimal price returned is the largest of \<open>current_price\<close>, \<open>min_price\<close> and
  \<open>max_price\<close>: exactly \<open>max_price\<close> when the bounds are ordered and \<open>max_price\<close> is
  not below the current price.
\<close>

theorem optimize_price_zero_elasticity:
  assumes "optimize_price opt product_data current_price category min_price max_price =
      (pd', Return r)"
    and "elasticity_get opt category = 0"
  shows "\<exists>base_demand. 0 < base_demand \<and>
    forecast_demand opt (product_data(''Price'' \<mapsto> Num current_price)) = Return base_demand \<and>
    (\<forall>pt\<in>set (res_simulation_results r). sp_demand pt = base_demand) \<and>
    (\<forall>pt\<in>set (res_simulation_results r). \<forall>pt'\<in>set (res_simulation_results r).
       sp_price pt < sp_price pt' \<longrightarrow> sp_revenue pt < sp_revenue pt') \<and>
    res_optimal_price r =
      max current_price
        (max (lower_bound current_price min_price) (upper_bound current_price max_price)) \<and>
    (lower_bound current_price min_price \<le> upper_bound current_price max_price \<and>
     current_price \<le> upper_bound current_price max_price \<longrightarrow>
       res_optimal_price r = upper_bound current_price max_price)"
proof -
  let ?lo = "lower_bound current_price min_price"
  let ?hi = "upper_bound current_price max_price"
  from assms(1) obtain bd where bd: "0 < bd"
    and fd: "forecast_demand opt (product_data(''Price'' \<mapsto> Num current_price)) = Return bd"
    and T: "res_simulation_results r =
      simulate opt category current_price bd min_price max_price"
    and best: "(res_optimal_price r, res_optimal_revenue r) =
      best_of (simulate opt category current_price bd min_price max_price)
        (current_price, current_price * bd)"
    by (rule optimize_price_ReturnE)
  let ?T = "simulate opt category current_price bd min_price max_price"
  have dem: "sp_demand pt = bd" if "pt \<in> set ?T" for pt
    using that assms(2) by (simp add: simulate_demand)
  have rev: "sp_revenue pt = sp_price pt * bd" if "pt \<in> set ?T" for pt
    using that by (simp add: simulate_revenue dem)
  have mono: "sp_revenue pt < sp_revenue pt'"
    if "pt \<in> set ?T" "pt' \<in> set ?T" "sp_price pt < sp_price pt'" for pt pt'
    using that bd by (simp add: rev)
  from best have "res_optimal_price r = fst (best_of ?T (current_price, current_price * bd))"
    by (metis fst_conv)
  with zero_elasticity_best [OF assms(2) bd, of current_price min_price max_price]
  have opt_max: "res_optimal_price r = max current_price (max ?lo ?hi)"
    by simp
  then have opt_hi: "res_optimal_price r = ?hi" if "?lo \<le> ?hi" "current_price \<le> ?hi"
    using that by simp
  from bd fd dem mono opt_max opt_hi show ?thesis
    unfolding T by blast
qed

text \<open>
  The same optimizer and product with the default bounds 7 and 13: the demand of the
  first candidate is the base demand 100, and the optimal price returned is 13.
\<close>

theorem optimize_price_zero_elasticity_witness:
  "elasticity_get (with_elasticity (init (constant_model 100)) (Str ''Staples'') 0)
     (Str ''Staples'') = 0 \<and>
   lower_bound 10 None \<le> upper_bound 10 None \<and> 10 \<le> upper_bound 10 None \<and>
   upper_bound 10 None = 13 \<and>
   (case snd (optimize_price (with_elasticity (init (constant_model 100)) (Str ''Staples'') 0)
        (sample_product ''Staples'' 10) 10 (Str ''Staples'') None None) of
      Return r \<Rightarrow>
        sp_demand (res_simulation_results r ! 0) = 100 \<and> res_optimal_price r = 13
    | _ \<Rightarrow> False)"
proof -
  let ?opt = "with_elasticity (init (constant_model 100)) (Str ''Staples'') 0"
  have e: "elasticity_get ?opt (Str ''Staples'') = 0"
    by (rule elasticity_get_with_elasticity)
  have fd: "forecast_demand ?opt ((sample_product ''Staples'' 10)(''Price'' \<mapsto> Num 10)) =
      Return 100"
    by (simp add: forecast_demand_with_elasticity constant_model_forecast)
  from optimize_price_returns [OF _ fd, of "Str ''Staples''" None None]
  obtain r where r: "optimize_price ?opt (sample_product ''Staples'' 10) 10 (Str ''Staples'')
      None None = ((sample_product ''Staples'' 10)(''Price'' \<mapsto> Num 10), Return r)"
    and T: "res_simulation_results r = simulate ?opt (Str ''Staples'') 10 100 None None"
    by simp
  have bounds: "lower_bound 10 None \<le> upper_bound 10 None" "10 \<le> upper_bound 10 None"
    "upper_bound 10 None = 13"
    by (simp_all add: lower_bound_def upper_bound_def)
  have mem: "res_simulation_results r ! 0 \<in> set (res_simulation_results r)"
    by (simp add: T)
  from optimize_price_zero_elasticity [OF r e] fd bounds mem
  have "sp_demand (res_simulation_results r ! 0) = 100 \<and> res_optimal_price r = 13"
    by auto
  with e bounds r show ?thesis by simp
qed

section \<open>The tie-break\<close>

lemma simulate_price_mono:
  assumes "lower_bound current_price min_price \<le> upper_bound current_price max_price"
    and "i \<le> j" "j < 50"
  shows "sp_price (simulate opt category current_price base_demand min_price max_price ! i) \<le>
    sp_price (simulate opt category current_price base_demand min_price max_price ! j)"
proof -
  let ?d = "(upper_bound current_price max_price - lower_bound current_price min_price) / 49"
  from assms(1) have "0 \<le> ?d" by simp
  moreover from assms(2) have "real i \<le> real j" by simp
  ultimately have "real i * ?d \<le> real j * ?d"
    by (rule mult_right_mono [rotated])
  with assms(2,3) show ?thesis by (simp add: simulate_price)
qed

text \<open>The revenue at a candidate for the elasticity \<open>- 1\<close>, the price 10 and demand 1000.\<close>

lemma symmetric_revenue:
  "sp_revenue (point_at (- 1) 10 1000 p) = 10000 - 100 * (p - 10)\<^sup>2"
  by (simp add: point_at_def power2_eq_square field_simps)

text \<open>
  The revenue along a grid that is symmetric about the revenue peak 24 of a product at
  price 16 with the elasticity \<open>- 0.5\<close> and a base demand of 1024: candidate \<open>j\<close>,
  of price \<open>11.75 + j / 2\<close>, earns \<open>13630 + 8 * j * (49 - j)\<close>.
\<close>

lemma staples_revenue:
  assumes "j < 50"
  shows "sp_revenue
      (simulate (with_elasticity (init (constant_model 1024)) (Str ''Staples'') (- 1 / 2))
        (Str ''Staples'') 16 1024 (Some (47 / 4)) (Some (145 / 4)) ! j) =
    13630 + 8 * real (j * (49 - j))"
proof -
  from assms have "real (j * (49 - j)) = real j * (49 - real j)"
    by (simp add: of_nat_diff)
  with assms show ?thesis
    by (simp add: simulate_nth point_at_def elasticity_get_with_elasticity lower_bound_def
        upper_bound_def field_simps)
qed

lemma peak_index:
  assumes "i < 50" "600 \<le> i * (49 - i)"
  shows "i = 24 \<or> i = (25::nat)"
proof -
  define k where "k = int i"
  have "(600::int) \<le> int (i * (49 - i))"
    using assms(2) by (metis of_nat_le_iff of_nat_numeral)
  also from assms(1) have "int (i * (49 - i)) = k * (49 - k)"
    by (simp add: k_def of_nat_diff)
  finally have "600 \<le> k * (49 - k)" .
  then have "(k - 24) * (k - 25) \<le> 0" by (simp add: algebra_simps)
  then have "24 \<le> k \<and> k \<le> 25" by (auto simp: mult_le_0_iff)
  then show ?thesis by (auto simp: k_def)
qed

text \<open>
  Claim C4. The best pair starts as the current price with the base revenue and is
  replaced on a strict improvement only. So for every returning call, either no
  candidate's revenue exceeds the base revenue and the result is the current price
  with the base revenue; or the result is the candidate at some index \<open>i\<close> of the
  trace whose revenue exceeds the base revenue, is strictly above that of every
  earlier candidate and is not below that of any candidate: the earliest of the
  candidates of maximal revenue, which for ordered bounds is the one of lowest price.
  In particular, for the price 10, the bounds 9 and 11, a base demand of 1000 and the
  elasticity \<open>- 1\<close> (a category outside the table), the base revenue is 10000, both
  extreme candidates earn 9900, and the optimal price returned is 10.
\<close>

theorem optimize_price_tie_break:
  "(optimize_price opt product_data current_price category min_price max_price =
      (pd', Return r) \<longrightarrow>
    ((res_optimal_price r = current_price \<and>
      res_optimal_revenue r = res_current_revenue r \<and>
      (\<forall>j<50. sp_revenue (res_simulation_results r ! j) \<le> res_current_revenue r)) \<or>
     (\<exists>i<50.
        res_optimal_price r = sp_price (res_simulation_results r ! i) \<and>
        res_optimal_revenue r = sp_revenue (res_simulation_results r ! i) \<and>
        res_current_revenue r < sp_revenue (res_simulation_results r ! i) \<and>
        (\<forall>j<i. sp_revenue (res_simulation_results r ! j) <
           sp_revenue (res_simulation_results r ! i)) \<and>
        (\<forall>j<50. sp_revenue (res_simulation_results r ! j) \<le>
           sp_revenue (res_simulation_results r ! i)) \<and>
        (lower_bound current_price min_price \<le> upper_bound current_price max_price \<longrightarrow>
           (\<forall>j<50. sp_revenue (res_simulation_results r ! j) =
                sp_revenue (res_simulation_results r ! i) \<longrightarrow>
              sp_price (res_simulation_results r ! i) \<le>
                sp_price (res_simulation_results r ! j)))))) \<and>
   (case snd (optimize_price (init (constant_model 1000)) (sample_product ''Toys'' 10) 10 (Str ''Toys'')
        (Some 9) (Some 11)) of
      Return r \<Rightarrow>
        res_current_revenue r = 10000 \<and>
        sp_revenue (res_simulation_results r ! 0) = 9900 \<and>
        sp_revenue (res_simulation_results r ! 49) = 9900 \<and>
        res_optimal_price r = 10 \<and> res_optimal_revenue r = 10000
    | _ \<Rightarrow> False)"
proof (intro conjI impI)
  assume ret: "optimize_price opt product_data current_price category min_price max_price =
    (pd', Return r)"
  then obtain bd where
    T: "res_simulation_results r = simulate opt category current_price bd min_price max_price"
    and base: "res_current_revenue r = current_price * bd"
    and best: "(res_optimal_price r, res_optimal_revenue r) =
      best_of (simulate opt category current_price bd min_price max_price)
        (current_price, current_price * bd)"
    by (rule optimize_price_ReturnE)
  let ?T = "simulate opt category current_price bd min_price max_price"
  from best_of_cases [of ?T current_price "current_price * bd"]
  show "(res_optimal_price r = current_price \<and>
      res_optimal_revenue r = res_current_revenue r \<and>
      (\<forall>j<50. sp_revenue (res_simulation_results r ! j) \<le> res_current_revenue r)) \<or>
     (\<exists>i<50.
        res_optimal_price r = sp_price (res_simulation_results r ! i) \<and>
        res_optimal_revenue r = sp_revenue (res_simulation_results r ! i) \<and>
        res_current_revenue r < sp_revenue (res_simulation_results r ! i) \<and>
        (\<forall>j<i. sp_revenue (res_simulation_results r ! j) <
           sp_revenue (res_simulation_results r ! i)) \<and>
        (\<forall>j<50. sp_revenue (res_simulation_results r ! j) \<le>
           sp_revenue (res_simulation_results r ! i)) \<and>
        (lower_bound current_price min_price \<le> upper_bound current_price max_price \<longrightarrow>
           (\<forall>j<50. sp_revenue (res_simulation_results r ! j) =
                sp_revenue (res_simulation_results r ! i) \<longrightarrow>
              sp_price (res_simulation_results r ! i) \<le>
                sp_price (res_simulation_results r ! j))))"
  proof
    assume "best_of ?T (current_price, current_price * bd) =
        (current_price, current_price * bd) \<and>
      (\<forall>j<length ?T. sp_revenue (?T ! j) \<le> current_price * bd)"
    with best base T show ?thesis by simp
  next
    assume "\<exists>i<length ?T.
      best_of ?T (current_price, current_price * bd) = (sp_price (?T ! i), sp_revenue (?T ! i)) \<and>
      current_price * bd < sp_revenue (?T ! i) \<and>
      (\<forall>j<i. sp_revenue (?T ! j) < sp_revenue (?T ! i)) \<and>
      (\<forall>j<length ?T. sp_revenue (?T ! j) \<le> sp_revenue (?T ! i))"
    then obtain i where i: "i < 50"
      "best_of ?T (current_price, current_price * bd) = (sp_price (?T ! i), sp_revenue (?T ! i))"
      "current_price * bd < sp_revenue (?T ! i)"
      "\<forall>j<i. sp_revenue (?T ! j) < sp_revenue (?T ! i)"
      "\<forall>j<50. sp_revenue (?T ! j) \<le> sp_revenue (?T ! i)"
      by auto
    have low: "sp_price (?T ! i) \<le> sp_price (?T ! j)"
      if le: "lower_bound current_price min_price \<le> upper_bound current_price max_price"
        and j: "j < 50" "sp_revenue (?T ! j) = sp_revenue (?T ! i)" for j
    proof -
      from i(4) j(2) have "\<not> j < i" by auto
      then have "i \<le> j" by simp
      with le j(1) show ?thesis by (intro simulate_price_mono)
    qed
    from i best have "res_optimal_price r = sp_price (?T ! i)"
      "res_optimal_revenue r = sp_revenue (?T ! i)"
      by simp_all
    with i low base T show ?thesis by auto
  qed
next
  let ?opt = "init (constant_model 1000)"
  let ?T = "simulate ?opt (Str ''Toys'') 10 1000 (Some 9) (Some 11)"
  have fd: "forecast_demand ?opt ((sample_product ''Toys'' 10)(''Price'' \<mapsto> Num 10)) = Return 1000"
    by (simp add: constant_model_forecast)
  have e: "elasticity_get ?opt (Str ''Toys'') = - 1"
    by (simp add: elasticity_get_def init_def)
  have "sp_revenue pt \<le> 10 * 1000" if "pt \<in> set ?T" for pt
  proof -
    from that obtain p where "pt = point_at (- 1) 10 1000 p"
      by (auto simp: simulate_def e)
    then have "sp_revenue pt = 10000 - 100 * (p - 10)\<^sup>2"
      by (simp add: symmetric_revenue)
    then show ?thesis by simp
  qed
  then have keep: "best_of ?T (10, 10 * 1000) = (10, 10 * 1000)"
    by (intro best_of_keep) blast
  have ends: "sp_revenue (?T ! 0) = 9900" "sp_revenue (?T ! 49) = 9900"
    by (simp_all add: simulate_nth e symmetric_revenue lower_bound_def upper_bound_def)
  from keep ends show "case snd (optimize_price ?opt (sample_product ''Toys'' 10) 10 (Str ''Toys'')
        (Some 9) (Some 11)) of
      Return r \<Rightarrow>
        res_current_revenue r = 10000 \<and>
        sp_revenue (res_simulation_results r ! 0) = 9900 \<and>
        sp_revenue (res_simulation_results r ! 49) = 9900 \<and>
        res_optimal_price r = 10 \<and> res_optimal_revenue r = 10000
    | _ \<Rightarrow> False"
    by (simp add: optimize_price_returns [OF _ fd])
qed

text \<open>
  A tie above the baseline, with numbers that binary floating point represents and
  computes exactly. A product at price 16 with the elasticity \<open>- 0.5\<close> and a base
  demand of 1024 has its revenue peak at the price 24; on the grid from 11.75 to 36.25
  (step 0.5) the candidates 24 and 25 (prices 23.75 and 24.25) both earn 18430, more
  than any other candidate and more than the base revenue 16384. The call returns the
  earlier, lower price 23.75.
\<close>

theorem optimize_price_tie_break_witness:
  "(case snd (optimize_price
        (with_elasticity (init (constant_model 1024)) (Str ''Staples'') (- 1 / 2))
        (sample_product ''Staples'' 16) 16 (Str ''Staples'') (Some (47 / 4)) (Some (145 / 4))) of
      Return r \<Rightarrow>
        sp_price (res_simulation_results r ! 24) = 95 / 4 \<and>
        sp_price (res_simulation_results r ! 25) = 97 / 4 \<and>
        sp_revenue (res_simulation_results r ! 24) = 18430 \<and>
        sp_revenue (res_simulation_results r ! 25) = 18430 \<and>
        res_current_revenue r = 16384 \<and>
        res_optimal_price r = 95 / 4 \<and> res_optimal_revenue r = 18430
    | _ \<Rightarrow> False)"
proof -
  let ?opt = "with_elasticity (init (constant_model 1024)) (Str ''Staples'') (- 1 / 2)"
  let ?T = "simulate ?opt (Str ''Staples'') 16 1024 (Some (47 / 4)) (Some (145 / 4))"
  have fd: "forecast_demand ?opt ((sample_product ''Staples'' 16)(''Price'' \<mapsto> Num 16)) =
      Return 1024"
    by (simp add: forecast_demand_with_elasticity constant_model_forecast)
  from optimize_price_returns [OF _ fd, of "Str ''Staples''" "Some (47 / 4)" "Some (145 / 4)"]
  obtain r where r: "optimize_price ?opt (sample_product ''Staples'' 16) 16 (Str ''Staples'')
      (Some (47 / 4)) (Some (145 / 4)) =
      ((sample_product ''Staples'' 16)(''Price'' \<mapsto> Num 16), Return r)"
    and T: "res_simulation_results r = ?T"
    and base: "res_current_revenue r = 16384"
    by simp
  have prices: "sp_price (?T ! 24) = 95 / 4" "sp_price (?T ! 25) = 97 / 4"
    by (simp_all add: simulate_price lower_bound_def upper_bound_def)
  have revs: "sp_revenue (?T ! 24) = 18430" "sp_revenue (?T ! 25) = 18430"
    using staples_revenue [of 24] staples_revenue [of 25] by simp_all
  from optimize_price_tie_break
    [of ?opt "sample_product ''Staples'' 16" 16 "Str ''Staples''" "Some (47 / 4)"
      "Some (145 / 4)" "(sample_product ''Staples'' 16)(''Price'' \<mapsto> Num 16)" r] r
  have "(res_optimal_price r = 16 \<and> res_optimal_revenue r = res_current_revenue r \<and>
      (\<forall>j<50. sp_revenue (?T ! j) \<le> res_current_revenue r)) \<or>
    (\<exists>i<50. res_optimal_price r = sp_price (?T ! i) \<and>
       res_optimal_revenue r = sp_revenue (?T ! i) \<and>
       res_current_revenue r < sp_revenue (?T ! i) \<and>
       (\<forall>j<i. sp_revenue (?T ! j) < sp_revenue (?T ! i)) \<and>
       (\<forall>j<50. sp_revenue (?T ! j) \<le> sp_revenue (?T ! i)))"
    unfolding T by blast
  then have "res_optimal_price r = 95 / 4 \<and> res_optimal_revenue r = 18430"
  proof
    assume "res_optimal_price r = 16 \<and> res_optimal_revenue r = res_current_revenue r \<and>
      (\<forall>j<50. sp_revenue (?T ! j) \<le> res_current_revenue r)"
    then have "sp_revenue (?T ! 24) \<le> 16384" using base by simp
    with revs show ?thesis by simp
  next
    assume "\<exists>i<50. res_optimal_price r = sp_price (?T ! i) \<and>
       res_optimal_revenue r = sp_revenue (?T ! i) \<and>
       res_current_revenue r < sp_revenue (?T ! i) \<and>
       (\<forall>j<i. sp_revenue (?T ! j) < sp_revenue (?T ! i)) \<and>
       (\<forall>j<50. sp_revenue (?T ! j) \<le> sp_revenue (?T ! i))"
    then obtain i where i: "i < 50" "res_optimal_price r = sp_price (?T ! i)"
      "res_optimal_revenue r = sp_revenue (?T ! i)"
      "\<forall>j<i. sp_revenue (?T ! j) < sp_revenue (?T ! i)"
      "\<forall>j<50. sp_revenue (?T ! j) \<le> sp_revenue (?T ! i)"
      by blast
    from i(5) have "sp_revenue (?T ! 24) \<le> sp_revenue (?T ! i)" by simp
    with revs(1) staples_revenue [OF i(1)] have "13630 + 8 * real (24 * (49 - 24)) \<le>
        13630 + 8 * real (i * (49 - i))"
      by (simp only:)
    then have "real (24 * (49 - 24)) \<le> real (i * (49 - i))"
      by linarith
    then have "24 * (49 - 24) \<le> i * (49 - i)" by (simp only: of_nat_le_iff)
    then have "600 \<le> i * (49 - i)" by simp
    with i(1) have "i = 24 \<or> i = 25" by (rule peak_index)
    moreover have "i \<noteq> 25"
    proof
      assume "i = 25"
      with i(4) have "sp_revenue (?T ! 24) < sp_revenue (?T ! 25)" by simp
      with revs show False by simp
    qed
    ultimately have "i = 24" by simp
    with i(2,3) prices revs show ?thesis by simp
  qed
  with r T base prices revs show ?thesis by simp
qed
section \<open>Batch recommendations: skipped products\<close>

lemma sample_product_price [simp]: "(sample_product category p)(''Price'' \<mapsto> Num p) = sample_product category p"
  by (rule ext) (simp add: sample_product_def)

text \<open>
  A product with the three keys that the loop body reads, a non-zero numeric price and
  a positive forecast yields a recommendation.
\<close>

lemma recommend_product_returns:
  assumes "forecast_demand opt (sample_product category p) = Return base_demand"
    and "p \<noteq> 0" "base_demand \<noteq> 0"
  shows "\<exists>rec. recommend_product opt (sample_product category p) = Return rec \<and>
    Product_Category rec = Str category \<and> Current_Price rec = p"
proof -
  from assms(1) have
    "forecast_demand opt ((sample_product category p)(''Price'' \<mapsto> Num p)) = Return base_demand"
    by simp
  from optimize_price_returns [OF assms(2) this assms(3), of "Str category" None None]
  show ?thesis
    by (simp add: recommend_product_def getitem_def sample_product_def)
qed

lemma recommend_product_estimator_raises:
  assumes "forecast_demand opt (sample_product category p) = Raise e"
  shows "recommend_product opt (sample_product category p) = Raise e"
proof -
  from assms have
    "forecast_demand opt ((sample_product category p)(''Price'' \<mapsto> Num p)) = Raise e"
    by simp
  then have "snd (optimize_price opt (sample_product category p) p (Str category) None None) = Raise e"
    by (simp add: optimize_price_def Let_def)
  then show ?thesis
    by (simp add: recommend_product_def getitem_def sample_product_def)
qed

text \<open>
  With the default bounds a call never returns a non-finite result: at the price 0
  both bounds are 0, every candidate's revenue is \<open>nan\<close>, and the call raises.
\<close>

lemma optimize_price_default_finite:
  "snd (optimize_price opt product_data current_price category None None) \<noteq> NonFinite"
proof (cases "forecast_demand opt (product_data(''Price'' \<mapsto> Num current_price))")
  case (Return bd)
  show ?thesis
  proof (cases "current_price = 0")
    case True
    with Return optimize_price_zero_price_raises [of opt product_data bd category None None]
    show ?thesis by (simp add: lower_bound_def upper_bound_def)
  next
    case False
    show ?thesis
    proof (cases "bd = 0")
      case True
      with Return optimize_price_zero_demand [of opt product_data current_price category]
      show ?thesis by simp
    next
      case nz: False
      from optimize_price_returns [OF False Return nz, of category None None]
      show ?thesis by simp
    qed
  qed
next
  case (Raise e)
  then show ?thesis by (simp add: optimize_price_def Let_def)
next
  case NonFinite
  with forecast_demand_not_NonFinite show ?thesis by blast
qed

lemma recommend_product_finite: "recommend_product opt p \<noteq> NonFinite"
  using optimize_price_default_finite [of opt p]
  by (auto simp: recommend_product_def getitem_def split: option.splits pyval.splits
      outcome.splits)

text \<open>
  A product at the price 0 is a failure of its own: \<open>optimize_price\<close> raises
  \<open>ZeroDivisionError\<close>, which the handler catches.
\<close>

lemma recommend_product_zero_price:
  assumes "forecast_demand opt (sample_product category 0) = Return base_demand"
  shows "recommend_product opt (sample_product category 0) = Raise ZeroDivisionError"
proof -
  from assms have
    "forecast_demand opt ((sample_product category 0)(''Price'' \<mapsto> Num 0)) = Return base_demand"
    by simp
  from optimize_price_zero_price_raises [OF this, of "Str category" None None]
  have "snd (optimize_price opt (sample_product category 0) 0 (Str category) None None) =
      Raise ZeroDivisionError"
    by (simp add: lower_bound_def upper_bound_def)
  then show ?thesis
    by (simp add: recommend_product_def getitem_def sample_product_def)
qed

text \<open>
  When every product of the batch carries the key \<open>'Product_Category'\<close>, the loop runs
  to its end: each product whose body raises adds one line to the diagnostics and
  nothing to the recommendations, each other product adds one recommendation, in the
  order of the batch.
\<close>

lemma recommend_loop_skips:
  assumes "\<forall>p\<in>set products. p ''Product_Category'' \<noteq> None"
  shows "recommend_loop opt products (printed, recommendations) =
    Return
      (printed @
         concat (map (\<lambda>p. case recommend_product opt p of
                             Raise e \<Rightarrow> [(the (p ''Product_Category''), e)]
                           | _ \<Rightarrow> []) products),
       recommendations @
         concat (map (\<lambda>p. case recommend_product opt p of
                             Return recommendation \<Rightarrow> [recommendation]
                           | _ \<Rightarrow> []) products))"
  using assms
proof (induction products arbitrary: printed recommendations)
  case Nil
  show ?case by simp
next
  case (Cons p products)
  from Cons.prems obtain category where cat: "p ''Product_Category'' = Some category"
    by auto
  from Cons.prems have rest: "\<forall>p\<in>set products. p ''Product_Category'' \<noteq> None"
    by simp
  show ?case
  proof (cases "recommend_product opt p")
    case (Return recommendation)
    then show ?thesis
      by (simp add: Cons.IH [OF rest])
  next
    case (Raise e)
    then show ?thesis
      by (simp add: Cons.IH [OF rest] getitem_def cat)
  next
    case NonFinite
    with recommend_product_finite show ?thesis by blast
  qed
qed

text \<open>
  The batch of the spec's example: five products, the third one priced so that the
  estimator raises. Four recommendations come back, the third product is absent, and
  one diagnostic names it.
\<close>

lemma generate_recommendations_batch_of_five:
  "(case generate_recommendations (init price_model)
      [sample_product ''Snacks'' 10, sample_product ''Dairy'' 12, sample_product ''Beverages'' 500,
       sample_product ''Household'' 8, sample_product ''Toys'' 15] of
      Return (printed, recommendations) \<Rightarrow>
        printed = [(Str ''Beverages'', OtherError ''ValueError'')] \<and>
        map Product_Category recommendations =
          [Str ''Snacks'', Str ''Dairy'', Str ''Household'', Str ''Toys'']
    | _ \<Rightarrow> False)"
proof -
  let ?opt = "init price_model"
  have fd: "forecast_demand ?opt (sample_product category p) =
      (if p > 100 then Raise (OtherError ''ValueError'')
       else Return (if 2000 - 100 * p > 0 then 2000 - 100 * p else 0))" for category p
    using price_model_forecast [of "sample_product category p" p] by simp
  from recommend_product_returns [of ?opt "''Snacks''" 10 1000]
  obtain r1 where r1: "recommend_product ?opt (sample_product ''Snacks'' 10) = Return r1"
    "Product_Category r1 = Str ''Snacks''"
    by (auto simp: fd)
  from recommend_product_returns [of ?opt "''Dairy''" 12 800]
  obtain r2 where r2: "recommend_product ?opt (sample_product ''Dairy'' 12) = Return r2"
    "Product_Category r2 = Str ''Dairy''"
    by (auto simp: fd)
  have r3: "recommend_product ?opt (sample_product ''Beverages'' 500) = Raise (OtherError ''ValueError'')"
    by (rule recommend_product_estimator_raises) (simp add: fd)
  from recommend_product_returns [of ?opt "''Household''" 8 1200]
  obtain r4 where r4: "recommend_product ?opt (sample_product ''Household'' 8) = Return r4"
    "Product_Category r4 = Str ''Household''"
    by (auto simp: fd)
  from recommend_product_returns [of ?opt "''Toys''" 15 500]
  obtain r5 where r5: "recommend_product ?opt (sample_product ''Toys'' 15) = Return r5"
    "Product_Category r5 = Str ''Toys''"
    by (auto simp: fd)
  have cat: "getitem (sample_product ''Beverages'' 500) ''Product_Category'' = Return (Str ''Beverages'')"
    by (simp add: getitem_def sample_product_def)
  show ?thesis
    by (simp add: generate_recommendations_def r1 r2 r3 r4 r5 cat)
qed

text \<open>
  Claim C7 holds for a batch whose products all carry the key \<open>'Product_Category'\<close>,
  and the code misses it otherwise: the exception handler formats its message with
  \<open>product['Product_Category']\<close>, so for a product without that key the \<open>KeyError\<close>
  of the loop body is followed by a second \<open>KeyError\<close> inside the handler, which
  leaves \<open>generate_recommendations\<close>. Here the first product has no category and the
  second is a sound Snacks product, which alone yields its recommendation: the batch
  of the two returns nothing and raises \<open>KeyError\<close>.
\<close>

theorem generate_recommendations_handler_raises:
  "generate_recommendations (init (constant_model 1000))
     [[''Store_Location'' \<mapsto> Str ''Urban'', ''Price'' \<mapsto> Num 10], sample_product ''Snacks'' 10] =
     Raise (KeyError ''Product_Category'') \<and>
   (case generate_recommendations (init (constant_model 1000)) [sample_product ''Snacks'' 10] of
      Return (printed, recommendations) \<Rightarrow>
        printed = [] \<and> map Product_Category recommendations = [Str ''Snacks'']
    | _ \<Rightarrow> False)"
proof -
  let ?opt = "init (constant_model 1000)"
  have bad: "generate_recommendations ?opt
     [[''Store_Location'' \<mapsto> Str ''Urban'', ''Price'' \<mapsto> Num 10], sample_product ''Snacks'' 10] =
     Raise (KeyError ''Product_Category'')"
    by (simp add: generate_recommendations_def recommend_product_def getitem_def)
  from recommend_product_returns [of ?opt "''Snacks''" 10 1000]
  obtain rec where "recommend_product ?opt (sample_product ''Snacks'' 10) = Return rec"
    "Product_Category rec = Str ''Snacks''"
    by (auto simp: constant_model_forecast)
  then have "case generate_recommendations ?opt [sample_product ''Snacks'' 10] of
      Return (printed, recommendations) \<Rightarrow>
        printed = [] \<and> map Product_Category recommendations = [Str ''Snacks'']
    | _ \<Rightarrow> False"
    by (simp add: generate_recommendations_def)
  with bad show ?thesis by simp
qed

end
